theory Spec2Isabelle
  imports Main "HOL-Library.Word" "HOL-Library.AList"
begin

section \<open>Types and values as the reflect package shows them\<close>

text \<open>
  The tool adapter of \<^verbatim>\<open>src/functions/type.go\<close> (package \<^verbatim>\<open>functions\<close>) works on Go
  values of static type \<^verbatim>\<open>any\<close> and inspects them with \<^verbatim>\<open>reflect\<close>. Line numbers below
  are those of that file. A \<^verbatim>\<open>reflect.Type\<close> is modelled by \<open>gotype\<close>; its constructors are the
  kinds the code distinguishes. The universe holds the predeclared types and the
  composite types built from them; defined (named) non-struct types and recursive
  types are outside of it. \<open>TOther n nilable\<close> is a type of any other kind (func, chan,
  complex, uintptr, unsafe pointer), with its name and whether that kind has a nil
  value. Go's \<^verbatim>\<open>int\<close> and \<^verbatim>\<open>uint\<close> are taken as 64 bits wide.
\<close>

datatype ikind = KInt | KInt8 | KInt16 | KInt32 | KInt64

datatype ukind = KUint | KUint8 | KUint16 | KUint32 | KUint64

datatype iface = AnyI | ErrorI | ContextI

datatype gotype =
    TBool
  | TInt ikind
  | TUint ukind
  | TFloat32
  | TFloat64
  | TString
  | TSlice gotype
  | TArray nat gotype
  | TMap gotype gotype
  | TPtr gotype
  | TStruct "field list"
  | TInterface iface
  | TOther string bool
and field =
    Field (fname: string) (pkgPath: string) (ftag: "(string \<times> string) list") (ftype: gotype)

text \<open>
  A \<^verbatim>\<open>reflect.StructField\<close> keeps its \<^verbatim>\<open>Name\<close>, its \<^verbatim>\<open>PkgPath\<close> (empty exactly for an
  exported field), its tag and its type. The tag is kept in parsed form, as the list of
  its \<^verbatim>\<open>key:"value"\<close> pairs, so that \<^verbatim>\<open>Tag.Get\<close> is a lookup that yields the empty
  string for a missing key.
\<close>

definition tagGet :: "(string \<times> string) list \<Rightarrow> string \<Rightarrow> string" where
  "tagGet tg k = (case map_of tg k of None \<Rightarrow> [] | Some v \<Rightarrow> v)"

text \<open>
  A dynamic value held in an \<^verbatim>\<open>any\<close>. \<open>VNil\<close> is the nil interface. Integers carry their
  kind; a float is its IEEE-754 bit pattern. A Go map with string keys is an association
  list whose order stands for the order in which one \<^verbatim>\<open>range\<close> statement visits it.
  \<open>VTypedNil t\<close> is the nil slice, map or pointer of type \<open>t\<close>; \<open>VError\<close> is a non-nil
  error value, \<open>VContext\<close> a non-nil \<^verbatim>\<open>context.Context\<close> and \<open>VOther t n\<close> any other
  non-nil value of type \<open>t\<close>.

  The errors are kept structured, one constructor for each \<^verbatim>\<open>fmt.Errorf\<close> of the source
  (the wrapped cause of a \<^verbatim>\<open>%w\<close> is the last argument), \<open>NumError\<close> for the errors of
  \<^verbatim>\<open>strconv\<close>, \<open>ErrRequired\<close> for the sentinel declared in \<^verbatim>\<open>src/functions/type.go\<close> and
  \<open>ErrOther\<close> for every error that comes from elsewhere.
\<close>

datatype numerr = ErrSyntax | ErrRange

datatype goval =
    VNil
  | VBool bool
  | VInt ikind int
  | VUint ukind int
  | VFloat32 "32 word"
  | VFloat64 "64 word"
  | VString string
  | VSlice gotype "goval list"
  | VMap gotype "(string \<times> goval) list"
  | VStruct "field list" "goval list"
  | VArray gotype "goval list"
  | VTypedNil gotype
  | VError goerror
  | VContext nat
  | VOther gotype nat
and goerror =
    NumError string string numerr
  | ErrToBool goval "goerror option"
  | ErrToInt goval "goerror option"
  | ErrToFloat goval "goerror option"
  | ErrSliceElem nat goerror
  | ErrToSlice goval
  | ErrMapElem string goerror
  | ErrToMap goval
  | ErrNoConversion goval gotype
  | ErrParameter string goerror
  | ErrRequired
  | ErrOther string

type_synonym gomap = "(string \<times> goval) list"

text \<open>
  Three outcomes of a piece of Go code that returns \<^verbatim>\<open>(T, error)\<close>: it panics, it returns a
  non-nil error (the value returned beside it is ignored by every caller in the source),
  or it returns a value and a nil error.
\<close>

datatype 'a res = Panic | Err goerror | Ok 'a

text \<open>
  What the code takes from the standard library and this model does not compute: float
  arithmetic, the float and composite cases of \<^verbatim>\<open>fmt\<close>'s \<^verbatim>\<open>%v\<close>, the text of an error
  (\<open>errorText\<close>; \<open>otherErrorText\<close> is the method \<^verbatim>\<open>Error\<close> of an error value that is no
  \<open>VError\<close>, \<open>None\<close> when it panics) and \<^verbatim>\<open>encoding/json\<close>. They are parameters of every definition that uses them.
\<close>

record stdlib =
  f32to64 :: "32 word \<Rightarrow> 64 word"
  f64to32 :: "64 word \<Rightarrow> 32 word"
  f64toInt :: "64 word \<Rightarrow> int"
  intToF64 :: "int \<Rightarrow> 64 word"
  parseFloat :: "string \<Rightarrow> goerror + 64 word"
  sprintOther :: "goval \<Rightarrow> string"
  errorText :: "goerror \<Rightarrow> string"
  otherErrorText :: "goval \<Rightarrow> string option"
  jsonMarshal :: "goval \<Rightarrow> goerror + string"
  jsonUnmarshal :: "string \<Rightarrow> goerror + gomap"

subsection \<open>Dynamic types, zero values, assignability\<close>

definition errorImplT :: gotype where
  "errorImplT = TOther ''*errors.errorString'' True"

definition contextImplT :: gotype where
  "contextImplT = TOther ''*context.cancelCtx'' True"

text \<open>
  \<^verbatim>\<open>reflect.TypeOf\<close>. The source calls it only after \<^verbatim>\<open>value == nil\<close> has been excluded, and
  so does the model; the equation for \<open>VNil\<close> is never used.
\<close>

fun typeOf :: "goval \<Rightarrow> gotype" where
  "typeOf VNil = TInterface AnyI"
| "typeOf (VBool b) = TBool"
| "typeOf (VInt k i) = TInt k"
| "typeOf (VUint k i) = TUint k"
| "typeOf (VFloat32 w) = TFloat32"
| "typeOf (VFloat64 w) = TFloat64"
| "typeOf (VString s) = TString"
| "typeOf (VSlice t vs) = TSlice t"
| "typeOf (VMap t kvs) = TMap TString t"
| "typeOf (VStruct fs vs) = TStruct fs"
| "typeOf (VArray t vs) = TArray (length vs) t"
| "typeOf (VTypedNil t) = t"
| "typeOf (VError e) = errorImplT"
| "typeOf (VContext n) = contextImplT"
| "typeOf (VOther t n) = t"

text \<open>
  \<^verbatim>\<open>reflect.Zero(t).Interface()\<close>: the zero value of \<open>t\<close> as an \<^verbatim>\<open>any\<close>. For an interface type
  it is the nil interface.
\<close>

fun zeroValue :: "gotype \<Rightarrow> goval"
and zeroFields :: "field list \<Rightarrow> goval list" where
  "zeroValue TBool = VBool False"
| "zeroValue (TInt k) = VInt k 0"
| "zeroValue (TUint k) = VUint k 0"
| "zeroValue TFloat32 = VFloat32 0"
| "zeroValue TFloat64 = VFloat64 0"
| "zeroValue TString = VString []"
| "zeroValue (TSlice t) = VTypedNil (TSlice t)"
| "zeroValue (TArray n t) = VArray t (replicate n (zeroValue t))"
| "zeroValue (TMap k t) = VTypedNil (TMap k t)"
| "zeroValue (TPtr t) = VTypedNil (TPtr t)"
| "zeroValue (TStruct fs) = VStruct fs (zeroFields fs)"
| "zeroValue (TInterface i) = VNil"
| "zeroValue (TOther n nilable) = (if nilable then VTypedNil (TOther n nilable) else VOther (TOther n nilable) 0)"
| "zeroFields [] = []"
| "zeroFields (Field n p tg t # fs) = zeroValue t # zeroFields fs"

text \<open>
  \<^verbatim>\<open>Type.Implements\<close> and \<^verbatim>\<open>Type.AssignableTo\<close> on this universe: a type is assignable to
  itself and to every interface it implements.
\<close>

definition implements :: "gotype \<Rightarrow> iface \<Rightarrow> bool" where
  "implements t i =
     (t = TInterface i \<or> i = AnyI \<or> (i = ErrorI \<and> t = errorImplT) \<or> (i = ContextI \<and> t = contextImplT))"

definition assignableTo :: "gotype \<Rightarrow> gotype \<Rightarrow> bool" where
  "assignableTo v t = (v = t \<or> (case t of TInterface i \<Rightarrow> implements v i | _ \<Rightarrow> False))"

text \<open>
  \<^verbatim>\<open>reflect.ValueOf(x)\<close> is the invalid zero \<^verbatim>\<open>reflect.Value\<close> for a nil interface; \<open>None\<close>
  stands for it. \<^verbatim>\<open>Value.Set\<close>, \<^verbatim>\<open>Value.SetMapIndex\<close> and \<^verbatim>\<open>Value.Call\<close> panic on a value
  that is not assignable to the place it goes to, and the first and the last also on the
  invalid one.
\<close>

definition valueOf :: "goval \<Rightarrow> goval option" where
  "valueOf v = (if v = VNil then None else Some v)"

definition canAssign :: "goval \<Rightarrow> gotype \<Rightarrow> bool" where
  "canAssign v t = (v \<noteq> VNil \<and> assignableTo (typeOf v) t)"

section \<open>The standard library functions the coercion engine calls\<close>

subsection \<open>strconv.ParseBool\<close>

definition ParseBool :: "string \<Rightarrow> goerror + bool" where
  "ParseBool s =
     (if s \<in> set [''1'', ''t'', ''T'', ''TRUE'', ''true'', ''True''] then Inr True
      else if s \<in> set [''0'', ''f'', ''F'', ''FALSE'', ''false'', ''False''] then Inr False
      else Inl (NumError ''ParseBool'' s ErrSyntax))"

subsection \<open>strconv.ParseInt(s, 10, 64)\<close>

definition digitVal :: "char \<Rightarrow> nat option" where
  "digitVal c = (let n = (of_char c :: nat) in if 48 \<le> n \<and> n \<le> 57 then Some (n - 48) else None)"

definition maxUint64 :: nat where
  "maxUint64 = 2 ^ 64 - 1"

text \<open>
  The loop of \<^verbatim>\<open>ParseUint\<close> in base 10: a byte that is no digit is a syntax error; an
  accumulator at or above the cutoff \<^verbatim>\<open>maxUint64/10 + 1\<close>, or a sum beyond 64 bits, is a
  range error, returned with the value \<^verbatim>\<open>maxUint64\<close>.
\<close>

fun parseUintLoop :: "string \<Rightarrow> nat \<Rightarrow> nat \<times> numerr option" where
  "parseUintLoop [] n = (n, None)"
| "parseUintLoop (c # cs) n =
     (case digitVal c of
        None \<Rightarrow> (0, Some ErrSyntax)
      | Some d \<Rightarrow>
          if n \<ge> maxUint64 div 10 + 1 then (maxUint64, Some ErrRange)
          else if n * 10 + d > maxUint64 then (maxUint64, Some ErrRange)
          else parseUintLoop cs (n * 10 + d))"

definition ParseUint :: "string \<Rightarrow> nat \<times> numerr option" where
  "ParseUint s = (if s = [] then (0, Some ErrSyntax) else parseUintLoop s 0)"

definition ParseInt :: "string \<Rightarrow> goerror + int" where
  "ParseInt s0 =
     (if s0 = [] then Inl (NumError ''ParseInt'' s0 ErrSyntax)
      else
        let neg = (hd s0 = CHR ''-'');
            s = (if hd s0 = CHR ''+'' \<or> hd s0 = CHR ''-'' then tl s0 else s0);
            (un, err) = ParseUint s
        in if err = Some ErrSyntax then Inl (NumError ''ParseInt'' s0 ErrSyntax)
           else if \<not> neg \<and> un \<ge> 2 ^ 63 then Inl (NumError ''ParseInt'' s0 ErrRange)
           else if neg \<and> un > 2 ^ 63 then Inl (NumError ''ParseInt'' s0 ErrRange)
           else Inr (if neg then - int un else int un))"

subsection \<open>fmt.Sprintf("%v", x)\<close>

definition digitChar :: "nat \<Rightarrow> char" where
  "digitChar d = ''0123456789'' ! d"

function digits :: "nat \<Rightarrow> string" where
  "digits n = (if n < 10 then [digitChar n] else digits (n div 10) @ [digitChar (n mod 10)])"
  by pat_completeness auto
termination
  by (relation "measure id") auto

definition fmtInt :: "int \<Rightarrow> string" where
  "fmtInt i = (if i < 0 then CHR ''-'' # digits (nat (- i)) else digits (nat i))"

definition sprintV :: "stdlib \<Rightarrow> goval \<Rightarrow> string" where
  "sprintV X v =
     (case v of
        VBool b \<Rightarrow> (if b then ''true'' else ''false'')
      | VInt k i \<Rightarrow> fmtInt i
      | VUint k i \<Rightarrow> fmtInt i
      | VString s \<Rightarrow> s
      | _ \<Rightarrow> sprintOther X v)"

subsection \<open>reflect.Value accessors and conversions\<close>

text \<open>
  \<^verbatim>\<open>Value.Int\<close> returns the value of a signed integer kind and panics (\<open>None\<close>) on every
  other kind; \<^verbatim>\<open>Value.Float\<close> does the same for the two float kinds.
\<close>

fun rvInt :: "goval \<Rightarrow> int option" where
  "rvInt (VInt k i) = Some i"
| "rvInt _ = None"

fun rvFloat :: "stdlib \<Rightarrow> goval \<Rightarrow> 64 word option" where
  "rvFloat X (VFloat32 w) = Some (f32to64 X w)"
| "rvFloat X (VFloat64 w) = Some w"
| "rvFloat X _ = None"

fun bits :: "ikind \<Rightarrow> nat" where
  "bits KInt = 64"
| "bits KInt8 = 8"
| "bits KInt16 = 16"
| "bits KInt32 = 32"
| "bits KInt64 = 64"

text \<open>
  \<^verbatim>\<open>reflect.ValueOf(i).Convert(targetType).Interface()\<close> for an \<^verbatim>\<open>int64\<close> and a signed integer
  target: the low bits of the two's complement. \<open>floatToInt64\<close> is Go's \<^verbatim>\<open>int64(f)\<close>.
\<close>

definition convertInt :: "ikind \<Rightarrow> int \<Rightarrow> goval" where
  "convertInt k i = VInt k (signed_take_bit (bits k - 1) i)"

definition floatToInt64 :: "stdlib \<Rightarrow> 64 word \<Rightarrow> int" where
  "floatToInt64 X w = signed_take_bit 63 (f64toInt X w)"

definition convertFloat :: "stdlib \<Rightarrow> bool \<Rightarrow> 64 word \<Rightarrow> goval" where
  "convertFloat X is32 w = (if is32 then VFloat32 (f64to32 X w) else VFloat64 w)"

text \<open>The case lists of the type switches of \<^verbatim>\<open>convertToType\<close>.\<close>

fun isIntegerV :: "goval \<Rightarrow> bool" where
  "isIntegerV (VInt k i) = True"
| "isIntegerV (VUint k i) = True"
| "isIntegerV _ = False"

fun isFloatV :: "goval \<Rightarrow> bool" where
  "isFloatV (VFloat32 w) = True"
| "isFloatV (VFloat64 w) = True"
| "isFloatV _ = False"

section \<open>convertToType\<close>

text \<open>
  The three scalar branches of the switch on \<^verbatim>\<open>targetType.Kind()\<close> (lines 507 to 560).
  Each is a type switch on the value, its cases in the order of the source; the numeric
  cases read the value with \<^verbatim>\<open>reflect.ValueOf(v).Int()\<close> or \<^verbatim>\<open>.Float()\<close>.
\<close>

definition toBool :: "goval \<Rightarrow> goval res" where
  "toBool v =
     (case v of
        VBool b \<Rightarrow> Ok (VBool b)
      | _ \<Rightarrow>
          if isIntegerV v \<or> isFloatV v
          then (case rvInt v of None \<Rightarrow> Panic | Some n \<Rightarrow> Ok (VBool (n \<noteq> 0)))
          else (case v of
                  VString s \<Rightarrow>
                    (case ParseBool s of
                       Inl e \<Rightarrow> Err (ErrToBool v (Some e))
                     | Inr b \<Rightarrow> Ok (VBool b))
                | _ \<Rightarrow> Err (ErrToBool v None)))"

definition toInt :: "stdlib \<Rightarrow> ikind \<Rightarrow> goval \<Rightarrow> goval res" where
  "toInt X k v =
     (if isIntegerV v
      then (case rvInt v of None \<Rightarrow> Panic | Some n \<Rightarrow> Ok (convertInt k n))
      else if isFloatV v
      then (case rvFloat X v of None \<Rightarrow> Panic | Some f \<Rightarrow> Ok (convertInt k (floatToInt64 X f)))
      else (case v of
              VString s \<Rightarrow>
                (case ParseInt s of
                   Inl e \<Rightarrow> Err (ErrToInt v (Some e))
                 | Inr i \<Rightarrow> Ok (convertInt k i))
            | _ \<Rightarrow> Err (ErrToInt v None)))"

definition toFloat :: "stdlib \<Rightarrow> bool \<Rightarrow> goval \<Rightarrow> goval res" where
  "toFloat X is32 v =
     (if isIntegerV v
      then (case rvInt v of None \<Rightarrow> Panic | Some n \<Rightarrow> Ok (convertFloat X is32 (intToF64 X n)))
      else if isFloatV v
      then (case rvFloat X v of None \<Rightarrow> Panic | Some f \<Rightarrow> Ok (convertFloat X is32 f))
      else (case v of
              VString s \<Rightarrow>
                (case parseFloat X s of
                   Inl e \<Rightarrow> Err (ErrToFloat v (Some e))
                 | Inr f \<Rightarrow> Ok (convertFloat X is32 f))
            | _ \<Rightarrow> Err (ErrToFloat v None)))"

text \<open>
  \<^verbatim>\<open>convertToType\<close> itself, with its two loops. \<open>convertSlice\<close> is the loop over the
  elements of a \<^verbatim>\<open>[]any\<close> (the index is the loop counter); \<^verbatim>\<open>sliceValue.Index(i).Set\<close>
  panics unless the converted element can be assigned. \<open>convertMap\<close> is the loop over a
  \<^verbatim>\<open>map[string]any\<close>, building the new map in its last argument; \<^verbatim>\<open>SetMapIndex\<close> deletes
  the key when the converted element is the invalid \<^verbatim>\<open>reflect.Value\<close>.
\<close>

fun convertToType :: "stdlib \<Rightarrow> goval \<Rightarrow> gotype \<Rightarrow> goval res"
and convertSlice :: "stdlib \<Rightarrow> goval list \<Rightarrow> gotype \<Rightarrow> nat \<Rightarrow> goval list res"
and convertMap :: "stdlib \<Rightarrow> gomap \<Rightarrow> gotype \<Rightarrow> gomap \<Rightarrow> gomap res" where
  "convertToType X v t =
     (if v = VNil then Ok (zeroValue t)
      else if assignableTo (typeOf v) t then Ok v
      else
        (case t of
           TString \<Rightarrow> Ok (VString (sprintV X v))
         | TBool \<Rightarrow> toBool v
         | TInt k \<Rightarrow> toInt X k v
         | TFloat32 \<Rightarrow> toFloat X True v
         | TFloat64 \<Rightarrow> toFloat X False v
         | TSlice et \<Rightarrow>
             (case v of
                VSlice st vs \<Rightarrow>
                  if st = TInterface AnyI
                  then (case convertSlice X vs et 0 of
                          Panic \<Rightarrow> Panic
                        | Err e \<Rightarrow> Err e
                        | Ok cs \<Rightarrow> Ok (VSlice et cs))
                  else Err (ErrToSlice v)
              | VTypedNil nt \<Rightarrow>
                  if nt = TSlice (TInterface AnyI) then Ok (VSlice et [])
                  else Err (ErrToSlice v)
              | _ \<Rightarrow> Err (ErrToSlice v))
         | TMap kt et \<Rightarrow>
             if kt = TString
             then
               (case v of
                  VMap st kvs \<Rightarrow>
                    if st = TInterface AnyI
                    then (case convertMap X kvs et [] of
                            Panic \<Rightarrow> Panic
                          | Err e \<Rightarrow> Err e
                          | Ok m \<Rightarrow> Ok (VMap et m))
                    else Err (ErrToMap v)
                | VTypedNil nt \<Rightarrow>
                    if nt = TMap TString (TInterface AnyI) then Ok (VMap et [])
                    else Err (ErrToMap v)
                | _ \<Rightarrow> Err (ErrToMap v))
             else Err (ErrNoConversion v t)
         | _ \<Rightarrow> Err (ErrNoConversion v t)))"
| "convertSlice X [] et i = Ok []"
| "convertSlice X (elem # rest) et i =
     (case convertToType X elem et of
        Panic \<Rightarrow> Panic
      | Err e \<Rightarrow> Err (ErrSliceElem i e)
      | Ok c \<Rightarrow>
          if \<not> canAssign c et then Panic
          else (case convertSlice X rest et (Suc i) of
                  Panic \<Rightarrow> Panic
                | Err e \<Rightarrow> Err e
                | Ok cs \<Rightarrow> Ok (c # cs)))"
| "convertMap X [] et m = Ok m"
| "convertMap X ((key, elem) # rest) et m =
     (case convertToType X elem et of
        Panic \<Rightarrow> Panic
      | Err e \<Rightarrow> Err (ErrMapElem key e)
      | Ok c \<Rightarrow>
          if c = VNil then convertMap X rest et (AList.delete key m)
          else if \<not> assignableTo (typeOf c) et then Panic
          else convertMap X rest et (AList.update key c m))"

declare convertToType.simps(1) [simp del]

section \<open>Tool.Execute\<close>

subsection \<open>The wrapped function and the tool\<close>

text \<open>
  The wrapped function, as \<^verbatim>\<open>reflect\<close> sees it: the types of its parameters
  (\<^verbatim>\<open>fnType.In\<close>) and what a call does with the arguments. A call either panics (\<open>None\<close>) or
  returns its results, each a \<^verbatim>\<open>reflect.Value\<close>: the declared type of the result and what
  \<^verbatim>\<open>Interface()\<close> yields for it.
\<close>

type_synonym rvalue = "gotype \<times> goval"

record func =
  fnIn :: "gotype list"
  fnBody :: "goval list \<Rightarrow> rvalue list option"

text \<open>
  The values of a schema map (\<^verbatim>\<open>map[string]any\<close>): strings, \<^verbatim>\<open>true\<close>, \<^verbatim>\<open>nil\<close>, a
  \<^verbatim>\<open>[]string\<close>, a \<^verbatim>\<open>[]any\<close> and nested maps. A map is an association list that is
  written with \<open>AList.update\<close>, so a key occurs once.
\<close>

datatype jv =
    JStr string
  | JTrue
  | JNull
  | JStrs "string list"
  | JArr "jv list"
  | JObj "(string \<times> jv) list"

record Schema =
  Type :: string
  Properties :: "(string \<times> (string \<times> jv) list) list"
  Required :: "string list"

record tool =
  name :: string
  description :: string
  func :: func
  schema :: "Schema option"

text \<open>
  What \<^verbatim>\<open>Execute\<close> does: it panics, or it returns its pair \<^verbatim>\<open>(any, error)\<close>. The error is
  \<open>VNil\<close> when nil and otherwise the value that the \<^verbatim>\<open>error\<close> holds.
\<close>

datatype result = Panicked | Returned goval goval

subsection \<open>Binding a struct parameter (lines 147 to 182)\<close>

text \<open>\<^verbatim>\<open>strings.Split(s, sep)\<close> for a separator of one byte: never the empty list.\<close>

fun splitOn :: "char \<Rightarrow> string \<Rightarrow> string list" where
  "splitOn sep [] = [[]]"
| "splitOn sep (c # cs) =
     (if c = sep then [] # splitOn sep cs
      else (case splitOn sep cs of [] \<Rightarrow> [[c]] | p # ps \<Rightarrow> (c # p) # ps))"

text \<open>
  The key under which \<^verbatim>\<open>Execute\<close> looks a field up: the local \<^verbatim>\<open>jsonTag\<close> after lines 155 to
  162, the field's name when it has no \<^verbatim>\<open>json\<close> tag and the tag's first part otherwise.
\<close>

definition paramKey :: "field \<Rightarrow> string" where
  "paramKey f =
     (let jsonTag = tagGet (ftag f) ''json''
      in if jsonTag = [] then fname f else hd (splitOn CHR '','' jsonTag))"

definition consRes :: "'a \<Rightarrow> 'a list res \<Rightarrow> 'a list res" where
  "consRes v r = (case r of Panic \<Rightarrow> Panic | Err e \<Rightarrow> Err e | Ok vs \<Rightarrow> Ok (v # vs))"

text \<open>
  The loop over the fields. \<^verbatim>\<open>structValue\<close> starts as the zero struct and iteration \<open>j\<close>
  writes field \<open>j\<close> only, so the struct is built field by field: a field keeps its zero value
  when its key is absent or when \<^verbatim>\<open>CanSet\<close> is false (the field is not exported), the loop
  returns at the first conversion error, and \<^verbatim>\<open>fieldValue.Set\<close> panics on a value that
  cannot be assigned.
\<close>

fun bindStruct :: "stdlib \<Rightarrow> gomap \<Rightarrow> field list \<Rightarrow> goval list res" where
  "bindStruct X params [] = Ok []"
| "bindStruct X params (f # fs) =
     (case map_of params (paramKey f) of
        None \<Rightarrow> consRes (zeroValue (ftype f)) (bindStruct X params fs)
      | Some paramValue \<Rightarrow>
          if pkgPath f \<noteq> [] then consRes (zeroValue (ftype f)) (bindStruct X params fs)
          else
            (case convertToType X paramValue (ftype f) of
               Panic \<Rightarrow> Panic
             | Err e \<Rightarrow> Err (ErrParameter (paramKey f) e)
             | Ok c \<Rightarrow>
                 if \<not> canAssign c (ftype f) then Panic
                 else consRes c (bindStruct X params fs)))"

subsection \<open>The loop over the parameters (lines 135 to 225)\<close>

definition isStringAnyMap :: "gotype \<Rightarrow> bool" where
  "isStringAnyMap t = (case t of TMap TString (TInterface i) \<Rightarrow> True | _ \<Rightarrow> False)"

text \<open>
  \<open>bindParams X params pick argIndex i ts\<close> runs the loop from index \<open>i\<close> on, \<open>ts\<close> being the
  parameter types from \<open>i\<close> on. A parameter that is neither the leading
  \<^verbatim>\<open>map[string]any\<close> nor a struct takes the value of the key that the \<^verbatim>\<open>range\<close> over
  \<^verbatim>\<open>params\<close> at lines 204 to 207 visits first. Go leaves that order open, so the key is an
  input of the model: \<open>pick i\<close> is the key visited first in iteration \<open>i\<close>. The block at
  lines 187 to 200 runs only for a struct type and a struct never reaches it.
\<close>

fun bindParams ::
  "stdlib \<Rightarrow> gomap \<Rightarrow> (nat \<Rightarrow> string) \<Rightarrow> nat \<Rightarrow> nat \<Rightarrow> gotype list \<Rightarrow> goval option list res" where
  "bindParams X params pick argIndex i [] = Ok []"
| "bindParams X params pick argIndex i (paramType # ts) =
     (if i = argIndex \<and> isStringAnyMap paramType
      then consRes (Some (VMap (TInterface AnyI) params)) (bindParams X params pick argIndex (Suc i) ts)
      else
        (case paramType of
           TStruct fs \<Rightarrow>
             (case bindStruct X params fs of
                Panic \<Rightarrow> Panic
              | Err e \<Rightarrow> Err e
              | Ok vals \<Rightarrow>
                  consRes (Some (VStruct fs vals)) (bindParams X params pick argIndex (Suc i) ts))
         | _ \<Rightarrow>
             (let paramName = (if params \<noteq> [] then pick i else [])
              in if paramName \<noteq> []
                 then
                   (case map_of params paramName of
                      Some paramValue \<Rightarrow>
                        (case convertToType X paramValue paramType of
                           Panic \<Rightarrow> Panic
                         | Err e \<Rightarrow> Err (ErrParameter paramName e)
                         | Ok c \<Rightarrow>
                             consRes (valueOf c) (bindParams X params pick argIndex (Suc i) ts))
                    | None \<Rightarrow>
                        consRes (Some (zeroValue paramType))
                          (bindParams X params pick argIndex (Suc i) ts))
                 else consRes (Some (zeroValue paramType))
                        (bindParams X params pick argIndex (Suc i) ts))))"

definition hasContext :: "func \<Rightarrow> bool" where
  "hasContext f = (case fnIn f of [] \<Rightarrow> False | t # ts \<Rightarrow> implements t ContextI)"

text \<open>
  Lines 118 to 225: the argument list that \<^verbatim>\<open>Execute\<close> has built when it reaches the call.
  \<open>argIndex\<close> is the local of that name, \<open>freeParams\<close> the parameter types from it on and
  \<open>ctxArgs\<close> the context argument, when the function takes one.
\<close>

definition argIndex :: "func \<Rightarrow> nat" where
  "argIndex f = (if hasContext f then 1 else 0)"

definition freeParams :: "func \<Rightarrow> gotype list" where
  "freeParams f = drop (argIndex f) (fnIn f)"

definition ctxArgs :: "func \<Rightarrow> goval \<Rightarrow> goval option list" where
  "ctxArgs f ctx = (if hasContext f then [valueOf ctx] else [])"

definition Bind :: "stdlib \<Rightarrow> func \<Rightarrow> goval \<Rightarrow> gomap \<Rightarrow> (nat \<Rightarrow> string) \<Rightarrow> goval option list res" where
  "Bind X f ctx params pick =
     (case bindParams X params pick (argIndex f) (argIndex f) (freeParams f) of
        Panic \<Rightarrow> Panic
      | Err e \<Rightarrow> Err e
      | Ok as \<Rightarrow> Ok (ctxArgs f ctx @ as))"

subsection \<open>The call and its results (lines 228 to 242)\<close>

text \<open>
  \<^verbatim>\<open>Value.IsNil\<close> panics (\<open>None\<close>) unless the kind of the value has a nil.
\<close>

definition isTypedNil :: "goval \<Rightarrow> bool" where
  "isTypedNil v = (case v of VTypedNil t \<Rightarrow> True | _ \<Rightarrow> False)"

fun rvIsNil :: "rvalue \<Rightarrow> bool option" where
  "rvIsNil (TInterface i, v) = Some (v = VNil)"
| "rvIsNil (TSlice t, v) = Some (isTypedNil v)"
| "rvIsNil (TMap k t, v) = Some (isTypedNil v)"
| "rvIsNil (TPtr t, v) = Some (isTypedNil v)"
| "rvIsNil (TOther n nilable, v) = (if nilable then Some (isTypedNil v) else None)"
| "rvIsNil (t, v) = None"

text \<open>
  The type assertion \<^verbatim>\<open>x.(error)\<close> on the value that \<^verbatim>\<open>Interface()\<close> yields: it panics
  (\<open>None\<close>) unless the value is not the nil interface and its type implements \<^verbatim>\<open>error\<close>;
  otherwise it is that same value, now an \<^verbatim>\<open>error\<close>. The nil pointer of a pointer type
  that implements \<^verbatim>\<open>error\<close> passes, and is a non-nil \<^verbatim>\<open>error\<close>.
\<close>

definition asError :: "goval \<Rightarrow> goval option" where
  "asError v = (if v \<noteq> VNil \<and> implements (typeOf v) ErrorI then Some v else None)"

definition handleResults :: "rvalue list \<Rightarrow> result" where
  "handleResults results =
     (case results of
        [] \<Rightarrow> Returned VNil VNil
      | [r] \<Rightarrow> Returned (snd r) VNil
      | r # rs \<Rightarrow>
          (let errVal = last results
           in case rvIsNil errVal of
                None \<Rightarrow> Panicked
              | Some True \<Rightarrow> Returned (snd r) VNil
              | Some False \<Rightarrow>
                  (case asError (snd errVal) of
                     None \<Rightarrow> Panicked
                   | Some err \<Rightarrow> Returned (snd r) err)))"

text \<open>
  \<^verbatim>\<open>fnValue.Call(args)\<close> panics before it runs the function when an argument is the invalid
  \<^verbatim>\<open>reflect.Value\<close> or cannot be assigned to its parameter. The second component is the log
  of the calls made to the wrapped function, each with its arguments.
\<close>

definition argOK :: "gotype \<Rightarrow> goval \<Rightarrow> bool" where
  "argOK t v =
     (if v = VNil then (case t of TInterface i \<Rightarrow> True | _ \<Rightarrow> False)
      else assignableTo (typeOf v) t)"

definition Call :: "func \<Rightarrow> goval option list \<Rightarrow> result \<times> goval list list" where
  "Call f args =
     (case those args of
        None \<Rightarrow> (Panicked, [])
      | Some actual \<Rightarrow>
          if \<not> list_all2 argOK (fnIn f) actual then (Panicked, [])
          else
            (case fnBody f actual of
               None \<Rightarrow> (Panicked, [actual])
             | Some results \<Rightarrow> (handleResults results, [actual])))"

definition Execute ::
  "stdlib \<Rightarrow> tool \<Rightarrow> goval \<Rightarrow> gomap \<Rightarrow> (nat \<Rightarrow> string) \<Rightarrow> result \<times> goval list list" where
  "Execute X t ctx params pick =
     (case Bind X (func t) ctx params pick of
        Panic \<Rightarrow> (Panicked, [])
      | Err e \<Rightarrow> (Returned VNil (VError e), [])
      | Ok args \<Rightarrow> Call (func t) args)"

section \<open>Tool.ServerTool: the protocol adapter (lines 254 to 287)\<close>

datatype callToolResult = ToolResultError string | ToolResultText string

datatype handled = HandlerPanics | HandlerReturns callToolResult "goerror option"

text \<open>
  Lines 266 to 275: \<^verbatim>\<open>req.Params.Arguments\<close> (of type \<^verbatim>\<open>any\<close>), when not nil, goes
  through \<^verbatim>\<open>json.Marshal\<close> and \<^verbatim>\<open>json.Unmarshal\<close> into the empty map \<^verbatim>\<open>params\<close>.
\<close>

definition decodeArguments :: "stdlib \<Rightarrow> goval \<Rightarrow> goerror + gomap" where
  "decodeArguments X arguments =
     (if arguments = VNil then Inr []
      else (case jsonMarshal X arguments of
              Inl e \<Rightarrow> Inl e
            | Inr buf \<Rightarrow> jsonUnmarshal X buf))"

text \<open>
  \<^verbatim>\<open>err.Error()\<close> on a non-nil \<^verbatim>\<open>error\<close>: the text of the error for a \<open>VError\<close>, and what
  the method of its type does for any other value; \<open>None\<close> when the call panics.
\<close>

definition errorString :: "stdlib \<Rightarrow> goval \<Rightarrow> string option" where
  "errorString X err = (case err of VError e \<Rightarrow> Some (errorText X e) | _ \<Rightarrow> otherErrorText X err)"

definition Handler :: "stdlib \<Rightarrow> tool \<Rightarrow> goval \<Rightarrow> goval \<Rightarrow> (nat \<Rightarrow> string) \<Rightarrow> handled" where
  "Handler X t ctx arguments pick =
     (case decodeArguments X arguments of
        Inl e \<Rightarrow> HandlerReturns (ToolResultError (errorText X e)) None
      | Inr params \<Rightarrow>
          (case fst (Execute X t ctx params pick) of
             Panicked \<Rightarrow> HandlerPanics
           | Returned r err \<Rightarrow>
               if err \<noteq> VNil
               then (case errorString X err of
                       None \<Rightarrow> HandlerPanics
                     | Some s \<Rightarrow> HandlerReturns (ToolResultError s) None)
               else
                 (case jsonMarshal X r of
                    Inl e \<Rightarrow> HandlerReturns (ToolResultError (errorText X e)) None
                  | Inr buf \<Rightarrow> HandlerReturns (ToolResultText buf) None)))"

section \<open>Schema synthesis\<close>

text \<open>
  One iteration of the field loop, which the source has twice (lines 324 to 369 for the
  parameter struct, lines 432 to 477 for a nested struct): whether the field is skipped,
  the name it gets and whether the name is appended to \<^verbatim>\<open>required\<close>.
\<close>

definition jsonTag :: "field \<Rightarrow> string" where
  "jsonTag f = tagGet (ftag f) ''json''"

definition fieldName :: "field \<Rightarrow> string" where
  "fieldName f = (if jsonTag f \<noteq> [] then hd (splitOn CHR '','' (jsonTag f)) else fname f)"

definition skipped :: "field \<Rightarrow> bool" where
  "skipped f = (pkgPath f \<noteq> [] \<or> (jsonTag f \<noteq> [] \<and> fieldName f = ''-''))"

definition omitempty :: "field \<Rightarrow> bool" where
  "omitempty f = (jsonTag f \<noteq> [] \<and> ''omitempty'' \<in> set (tl (splitOn CHR '','' (jsonTag f))))"

definition isRequired :: "field \<Rightarrow> bool" where
  "isRequired f = (if jsonTag f \<noteq> [] then \<not> (''omitempty'' \<in> set (tl (splitOn CHR '','' (jsonTag f)))) else True)"

definition withDescription :: "string \<Rightarrow> field \<Rightarrow> (string \<times> jv) list \<Rightarrow> (string \<times> jv) list" where
  "withDescription key f fieldSchema =
     (let docTag = tagGet (ftag f) key
      in if docTag \<noteq> [] then AList.update ''description'' (JStr docTag) fieldSchema
         else fieldSchema)"

text \<open>
  \<^verbatim>\<open>getTypeSchema\<close> (lines 381 to 485). \<open>structFields\<close> is the loop of the struct case; it
  threads the two entries of the schema map that the loop writes, \<^verbatim>\<open>properties\<close> and
  \<^verbatim>\<open>required\<close>. In the pointer case the type assertion \<^verbatim>\<open>enum.([]any)\<close> is reached only when
  the map has the key \<^verbatim>\<open>enum\<close>, which no schema built here has (see
  \<open>getTypeSchema_no_enum\<close> below), so its panic is not a branch of the model.
\<close>

fun getTypeSchema :: "gotype \<Rightarrow> (string \<times> jv) list"
and structFields ::
  "field list \<Rightarrow> (string \<times> jv) list \<Rightarrow> string list \<Rightarrow> (string \<times> jv) list \<times> string list" where
  "getTypeSchema (TPtr t) =
     (let elemSchema = getTypeSchema t
      in case map_of elemSchema ''enum'' of
           Some (JArr enumValues) \<Rightarrow> AList.update ''enum'' (JArr (enumValues @ [JNull])) elemSchema
         | _ \<Rightarrow> elemSchema)"
| "getTypeSchema TBool = [(''type'', JStr ''boolean'')]"
| "getTypeSchema (TInt k) = [(''type'', JStr ''integer'')]"
| "getTypeSchema (TUint k) = [(''type'', JStr ''integer'')]"
| "getTypeSchema TFloat32 = [(''type'', JStr ''number'')]"
| "getTypeSchema TFloat64 = [(''type'', JStr ''number'')]"
| "getTypeSchema TString = [(''type'', JStr ''string'')]"
| "getTypeSchema (TSlice t) = [(''type'', JStr ''array''), (''items'', JObj (getTypeSchema t))]"
| "getTypeSchema (TArray n t) = [(''type'', JStr ''array''), (''items'', JObj (getTypeSchema t))]"
| "getTypeSchema (TMap k t) =
     (if k = TString
      then [(''type'', JStr ''object''), (''additionalProperties'', JObj (getTypeSchema t))]
      else [(''type'', JStr ''object''), (''additionalProperties'', JTrue)])"
| "getTypeSchema (TStruct fs) =
     (let (props, req) = structFields fs [] []
      in [(''type'', JStr ''object''), (''properties'', JObj props), (''required'', JStrs req)])"
| "getTypeSchema (TInterface i) = [(''type'', JStr ''string'')]"
| "getTypeSchema (TOther n nilable) = [(''type'', JStr ''string'')]"
| "structFields [] props req = (props, req)"
| "structFields (Field n p tg t # fs) props req =
     (let f = Field n p tg t
      in if skipped f then structFields fs props req
         else structFields fs
                (AList.update (fieldName f) (JObj (withDescription ''doc'' f (getTypeSchema t))) props)
                (if isRequired f then req @ [fieldName f] else req))"

text \<open>
  \<^verbatim>\<open>generateSchemaFromFunction\<close> (lines 289 to 379). \<open>schemaFields\<close> is its loop over the
  fields of the parameter struct, on the schema built so far.
\<close>

fun schemaFields :: "field list \<Rightarrow> Schema \<Rightarrow> Schema" where
  "schemaFields [] s = s"
| "schemaFields (f # fs) s =
     (if skipped f then schemaFields fs s
      else schemaFields fs
             (s\<lparr>Required := (if isRequired f then Required s @ [fieldName f] else Required s),
                Properties :=
                  AList.update (fieldName f)
                    (withDescription ''mcpdescription'' f (getTypeSchema (ftype f))) (Properties s)\<rparr>))"

definition emptySchema :: Schema where
  "emptySchema = \<lparr>Type = ''object'', Properties = [], Required = []\<rparr>"

definition generateSchemaFromFunction :: "gotype list \<Rightarrow> Schema" where
  "generateSchemaFromFunction ins =
     (let startIndex = (case ins of [] \<Rightarrow> 0 | t # ts \<Rightarrow> if implements t ContextI then 1 else 0)
      in if length ins \<le> startIndex then emptySchema
         else
           (let paramType = ins ! startIndex
            in if isStringAnyMap paramType then emptySchema
               else
                 (case paramType of
                    TStruct fs \<Rightarrow> schemaFields fs emptySchema
                  | _ \<Rightarrow>
                      emptySchema\<lparr>Properties := [(''value'', getTypeSchema paramType)],
                                  Required := [''value'']\<rparr>)))"

definition NewFunctionTool :: "string \<Rightarrow> string \<Rightarrow> func \<Rightarrow> tool" where
  "NewFunctionTool n d fn =
     \<lparr>name = n, description = d, func = fn, schema = Some (generateSchemaFromFunction (fnIn fn))\<rparr>"

section \<open>Examples\<close>

text \<open>
  An instance of the library parameters, to close the examples below. No example reaches
  one of its operations unless it says so.
\<close>

definition exampleLib :: stdlib where
  "exampleLib =
     \<lparr>f32to64 = (\<lambda>w. 0), f64to32 = (\<lambda>w. 0), f64toInt = (\<lambda>w. 0), intToF64 = (\<lambda>i. 0),
      parseFloat = (\<lambda>s. Inl (NumError ''ParseFloat'' s ErrSyntax)),
      sprintOther = (\<lambda>v. []), errorText = (\<lambda>e. []), otherErrorText = (\<lambda>v. None),
      jsonMarshal = (\<lambda>v. Inr []), jsonUnmarshal = (\<lambda>s. Inr [])\<rparr>"

text \<open>
  The shape \<^verbatim>\<open>struct { ID int `json:"id"`; Note string `json:"note,omitempty"` }\<close> and a
  function of that one parameter with no result.
\<close>

definition idNoteFields :: "field list" where
  "idNoteFields =
     [Field ''ID'' [] [(''json'', ''id'')] (TInt KInt),
      Field ''Note'' [] [(''json'', ''note,omitempty'')] TString]"

definition idNoteFunc :: func where
  "idNoteFunc = \<lparr>fnIn = [TStruct idNoteFields], fnBody = (\<lambda>args. Some [])\<rparr>"

definition idNoteTool :: tool where
  "idNoteTool = NewFunctionTool ''idnote'' [] idNoteFunc"

text \<open>A function of no parameter that returns the given results, and its tool.\<close>

definition constFunc :: "rvalue list \<Rightarrow> func" where
  "constFunc rs = \<lparr>fnIn = [], fnBody = (\<lambda>args. Some rs)\<rparr>"

definition constTool :: "rvalue list \<Rightarrow> tool" where
  "constTool rs = NewFunctionTool ''const'' [] (constFunc rs)"



text \<open>
  \<^verbatim>\<open>func(p struct { A bool; B int })\<close> and \<^verbatim>\<open>func(p struct { Flag bool `json:"flag"` })\<close>,
  both with no result, and their tools.
\<close>

definition abFields :: "field list" where
  "abFields = [Field ''A'' [] [] TBool, Field ''B'' [] [] (TInt KInt)]"

definition abFunc :: func where
  "abFunc = \<lparr>fnIn = [TStruct abFields], fnBody = (\<lambda>args. Some [])\<rparr>"

definition abTool :: tool where
  "abTool = NewFunctionTool ''ab'' [] abFunc"

definition flagFields :: "field list" where
  "flagFields = [Field ''Flag'' [] [(''json'', ''flag'')] TBool]"

definition flagFunc :: func where
  "flagFunc = \<lparr>fnIn = [TStruct flagFields], fnBody = (\<lambda>args. Some [])\<rparr>"

definition flagTool :: tool where
  "flagTool = NewFunctionTool ''flag'' [] flagFunc"

text \<open>
  \<^verbatim>\<open>struct { A string `json:"x"`; B string `json:"x,omitempty"` }\<close>, two fields under one
  name, and \<^verbatim>\<open>struct { secret string }\<close> of package \<^verbatim>\<open>main\<close>, a field that is not exported.
\<close>

definition dupFields :: "field list" where
  "dupFields =
     [Field ''A'' [] [(''json'', ''x'')] TString,
      Field ''B'' [] [(''json'', ''x,omitempty'')] TString]"

definition hiddenFields :: "field list" where
  "hiddenFields = [Field ''secret'' ''main'' [] TString]"

text \<open>The text \<^verbatim>\<open>{"flag":1}\<close> (\<open>CHR 0x22\<close> is the double quote).\<close>

definition flagJSON :: string where
  "flagJSON = ''{'' @ [CHR 0x22] @ ''flag'' @ [CHR 0x22] @ '':1}''"

text \<open>
  An instance of the library for the arguments \<^verbatim>\<open>{"flag": 1}\<close>: \<^verbatim>\<open>json.Marshal\<close> yields that
  text and \<^verbatim>\<open>json.Unmarshal\<close> reads it as a map whose number is the \<^verbatim>\<open>float64\<close> 1.0 (bit
  pattern \<open>0x3FF0000000000000\<close>).
\<close>

definition flagLib :: stdlib where
  "flagLib =
     exampleLib\<lparr>jsonMarshal := (\<lambda>v. Inr flagJSON),
                jsonUnmarshal := (\<lambda>s. Inr [(''flag'', VFloat64 0x3FF0000000000000)])\<rparr>"

section \<open>Facts about the binder\<close>

lemma splitOn_nonempty: "splitOn sep s \<noteq> []"
  by (induction s) (auto split: list.splits)

lemma zeroFields_map: "zeroFields fs = map (\<lambda>f. zeroValue (ftype f)) fs"
proof (induction fs)
  case Nil
  then show ?case by simp
next
  case (Cons f fs)
  then show ?case by (cases f) simp
qed

lemma consRes_Ok: "consRes v r = Ok vs \<longleftrightarrow> (\<exists>vs'. r = Ok vs' \<and> vs = v # vs')"
  by (cases r) (auto simp: consRes_def)

lemma consRes_Err: "consRes v r = Err e \<longleftrightarrow> r = Err e"
  by (cases r) (auto simp: consRes_def)

lemma consRes_Panic: "consRes v r = Panic \<longleftrightarrow> r = Panic"
  by (cases r) (auto simp: consRes_def)

lemma bindStruct_length: "bindStruct X p fs = Ok vals \<Longrightarrow> length vals = length fs"
  by (induction fs arbitrary: vals)
     (auto simp: consRes_Ok split: option.splits if_splits res.splits)

lemma bindStruct_absent:
  "bindStruct X p fs = Ok vals \<Longrightarrow> j < length fs \<Longrightarrow> map_of p (paramKey (fs ! j)) = None
     \<Longrightarrow> vals ! j = zeroValue (ftype (fs ! j))"
proof (induction fs arbitrary: vals j)
  case Nil
  then show ?case by simp
next
  case (Cons f fs)
  then show ?case
    by (cases j) (auto simp: consRes_Ok split: option.splits if_splits res.splits)
qed

lemma bindStruct_Err:
  "bindStruct X p fs = Err e \<Longrightarrow>
     \<exists>fld\<in>set fs. \<exists>v c. pkgPath fld = [] \<and> map_of p (paramKey fld) = Some v \<and>
        convertToType X v (ftype fld) = Err c \<and> e = ErrParameter (paramKey fld) c"
  by (induction fs) (auto simp: consRes_Err split: option.splits if_splits res.splits)

lemma bindStruct_Ok_converted:
  "bindStruct X p fs = Ok vals \<Longrightarrow> fld \<in> set fs \<Longrightarrow> pkgPath fld = [] \<Longrightarrow>
     map_of p (paramKey fld) = Some v \<Longrightarrow>
     \<exists>c. convertToType X v (ftype fld) = Ok c \<and> canAssign c (ftype fld)"
  by (induction fs arbitrary: vals)
     (auto simp: consRes_Ok split: option.splits if_splits res.splits)

lemma bindStruct_all_absent:
  "\<forall>fld\<in>set fs. map_of p (paramKey fld) = None \<Longrightarrow> bindStruct X p fs = Ok (zeroFields fs)"
  by (induction fs) (auto simp: consRes_def zeroFields_map)

lemma bindStruct_cong:
  "\<forall>fld\<in>set fs. map_of p1 (paramKey fld) = map_of p2 (paramKey fld) \<Longrightarrow>
     bindStruct X p1 fs = bindStruct X p2 fs"
  by (induction fs) (auto split: option.splits res.splits)

lemma bindStruct_first_failure:
  "bindStruct X p pre = Ok vals \<Longrightarrow> pkgPath fld = [] \<Longrightarrow> map_of p (paramKey fld) = Some v \<Longrightarrow>
     convertToType X v (ftype fld) = Err c \<Longrightarrow>
     bindStruct X p (pre @ fld # post) = Err (ErrParameter (paramKey fld) c)"
  by (induction pre arbitrary: vals)
     (auto simp: consRes_Ok consRes_def split: option.splits if_splits res.splits)

lemma Bind_struct:
  "freeParams f = [TStruct fs] \<Longrightarrow>
     Bind X f ctx p pick =
       (case bindStruct X p fs of Panic \<Rightarrow> Panic | Err e \<Rightarrow> Err e
        | Ok vals \<Rightarrow> Ok (ctxArgs f ctx @ [Some (VStruct fs vals)]))"
  by (simp add: Bind_def isStringAnyMap_def consRes_def split: res.splits)

lemma bindParams_Err:
  "bindParams X p pick a i ts = Err e \<Longrightarrow>
     \<exists>k c v ty. e = ErrParameter k c \<and> map_of p k = Some v \<and> convertToType X v ty = Err c"
proof (induction ts arbitrary: i)
  case Nil
  then show ?case by simp
next
  case (Cons t ts)
  show ?case
  proof (cases "i = a \<and> isStringAnyMap t")
    case True
    with Cons show ?thesis by (auto simp: consRes_Err)
  next
    case False
    show ?thesis
    proof (cases "\<exists>fs. t = TStruct fs")
      case True
      then obtain fs where t: "t = TStruct fs" by blast
      from Cons.prems False t
      have "bindStruct X p fs = Err e \<or> bindParams X p pick a (Suc i) ts = Err e"
        by (auto simp: isStringAnyMap_def consRes_Err split: res.splits)
      then show ?thesis
      proof
        assume "bindStruct X p fs = Err e"
        from bindStruct_Err[OF this] show ?thesis by blast
      next
        assume "bindParams X p pick a (Suc i) ts = Err e"
        from Cons.IH[OF this] show ?thesis .
      qed
    next
      case notstruct: False
      from Cons.prems False notstruct
      have "(\<exists>k v c. map_of p k = Some v \<and> convertToType X v t = Err c \<and> e = ErrParameter k c)
            \<or> bindParams X p pick a (Suc i) ts = Err e"
        by (cases t) (auto simp: consRes_Err Let_def split: res.splits option.splits if_splits)
      then show ?thesis
      proof
        assume "\<exists>k v c. map_of p k = Some v \<and> convertToType X v t = Err c \<and> e = ErrParameter k c"
        then show ?thesis by blast
      next
        assume "bindParams X p pick a (Suc i) ts = Err e"
        from Cons.IH[OF this] show ?thesis .
      qed
    qed
  qed
qed

lemma Bind_Err:
  assumes "Bind X f ctx p pick = Err e"
  shows "\<exists>k c v ty. e = ErrParameter k c \<and> map_of p k = Some v \<and> convertToType X v ty = Err c"
proof -
  from assms have "bindParams X p pick (argIndex f) (argIndex f) (freeParams f) = Err e"
    by (auto simp: Bind_def split: res.splits)
  then show ?thesis by (rule bindParams_Err)
qed

lemma Execute_invoked_Bind_Ok:
  "snd (Execute X t ctx p pick) \<noteq> [] \<Longrightarrow> \<exists>args. Bind X (func t) ctx p pick = Ok args"
  by (auto simp: Execute_def split: res.splits)

lemma idNoteFunc_shape: "freeParams idNoteFunc = [TStruct idNoteFields]"
  by (simp add: freeParams_def argIndex_def hasContext_def idNoteFunc_def implements_def
        errorImplT_def contextImplT_def)

lemma idNoteFunc_noctx: "ctxArgs idNoteFunc ctx = []"
  by (simp add: ctxArgs_def hasContext_def idNoteFunc_def implements_def
        errorImplT_def contextImplT_def)

lemma convert_42: "convertToType X (VString ''42'') (TInt KInt) = Ok (VInt KInt 42)"
  by (simp add: convertToType.simps(1) assignableTo_def toInt_def ParseInt_def ParseUint_def
        digitVal_def maxUint64_def convertInt_def)

lemma idNote_bind:
  "Bind X idNoteFunc ctx [(''id'', VString ''42'')] pick =
     Ok [Some (VStruct idNoteFields [VInt KInt 42, VString []])]"
proof -
  have "bindStruct X [(''id'', VString ''42'')] idNoteFields = Ok [VInt KInt 42, VString []]"
    by (simp add: idNoteFields_def paramKey_def tagGet_def convert_42 canAssign_def
          assignableTo_def consRes_def)
  then show ?thesis
    by (simp add: Bind_struct[OF idNoteFunc_shape] idNoteFunc_noctx)
qed

lemma bindParams_single:
  assumes "\<not> isStringAnyMap ty" and "\<forall>fs. ty \<noteq> TStruct fs"
  shows "bindParams X p pick a i [ty] =
           (let k = (if p \<noteq> [] then pick i else [])
            in if k \<noteq> []
               then (case map_of p k of
                       None \<Rightarrow> Ok [Some (zeroValue ty)]
                     | Some v \<Rightarrow>
                         (case convertToType X v ty of
                            Panic \<Rightarrow> Panic
                          | Err e \<Rightarrow> Err (ErrParameter k e)
                          | Ok c \<Rightarrow> Ok [valueOf c]))
               else Ok [Some (zeroValue ty)])"
  using assms
  by (cases ty) (auto simp: consRes_def Let_def split: res.splits option.splits)

lemma Bind_single:
  assumes "freeParams f = [ty]" and "\<not> isStringAnyMap ty" and "\<forall>fs. ty \<noteq> TStruct fs"
  shows "Bind X f ctx p pick =
           (let k = (if p \<noteq> [] then pick (argIndex f) else [])
            in if k \<noteq> []
               then (case map_of p k of
                       None \<Rightarrow> Ok (ctxArgs f ctx @ [Some (zeroValue ty)])
                     | Some v \<Rightarrow>
                         (case convertToType X v ty of
                            Panic \<Rightarrow> Panic
                          | Err e \<Rightarrow> Err (ErrParameter k e)
                          | Ok c \<Rightarrow> Ok (ctxArgs f ctx @ [valueOf c])))
               else Ok (ctxArgs f ctx @ [Some (zeroValue ty)]))"
  unfolding Bind_def assms(1) bindParams_single[OF assms(2,3)]
  by (auto simp: Let_def split: res.splits option.splits)

lemma Execute_log_cases:
  "snd (Execute X t ctx p pick) = [] \<or> (\<exists>actual. snd (Execute X t ctx p pick) = [actual])"
  by (auto simp: Execute_def Call_def split: res.splits option.splits)

lemma Execute_invoked:
  assumes "snd (Execute X t ctx p pick) = [actual]"
  shows "Execute X t ctx p pick =
           (case fnBody (func t) actual of
              None \<Rightarrow> (Panicked, [actual])
            | Some results \<Rightarrow> (handleResults results, [actual]))"
  using assms
  by (auto simp: Execute_def Call_def split: res.splits option.splits if_splits)

lemma idNoteTool_func: "func idNoteTool = idNoteFunc"
  by (simp add: idNoteTool_def NewFunctionTool_def)

lemma constTool_Execute:
  "Execute X (constTool rs) ctx p pick = (handleResults rs, [[]])"
  by (simp add: Execute_def Bind_def Call_def constTool_def NewFunctionTool_def constFunc_def
        freeParams_def argIndex_def ctxArgs_def hasContext_def)

lemma convert_x: 
  "convertToType X (VString ''x'') (TInt KInt) =
     Err (ErrToInt (VString ''x'') (Some (NumError ''ParseInt'' ''x'' ErrSyntax)))"
  by (simp add: convertToType.simps(1) assignableTo_def toInt_def ParseInt_def ParseUint_def
        digitVal_def)

lemma constTool_func: "func (constTool rs) = constFunc rs"
  by (simp add: constTool_def NewFunctionTool_def)





lemma startIndex_argIndex:
  "(case fnIn f of [] \<Rightarrow> 0 | t # ts \<Rightarrow> if implements t ContextI then 1 else 0) = argIndex f"
  by (simp add: argIndex_def hasContext_def split: list.splits)

lemma freeParams_nth:
  assumes "freeParams f = ty # rest"
  shows "argIndex f < length (fnIn f) \<and> fnIn f ! argIndex f = ty"
proof -
  from assms have d: "drop (argIndex f) (fnIn f) = ty # rest"
    by (simp add: freeParams_def)
  then have "argIndex f < length (fnIn f)"
    by (metis drop_all list.distinct(1) not_le)
  moreover from d have "fnIn f ! argIndex f = ty"
    by (metis append_take_drop_id d hd_drop_conv_nth calculation list.sel(1))
  ultimately show ?thesis by simp
qed




section \<open>Facts about the schema\<close>

text \<open>No schema built by \<^verbatim>\<open>getTypeSchema\<close> has the key \<^verbatim>\<open>enum\<close>.\<close>

lemma getTypeSchema_no_enum: "map_of (getTypeSchema t) ''enum'' = None"
  by (induction t rule: getTypeSchema_structFields.induct(1)[where Q = "\<lambda>fs props req. True"])
     (auto split: prod.splits)

lemma isRequired_omitempty: "isRequired f \<longleftrightarrow> \<not> omitempty f"
  by (simp add: isRequired_def omitempty_def)

lemma schemaFields_Required:
  "Required (schemaFields fs s) =
     Required s @ map fieldName (filter (\<lambda>f. \<not> skipped f \<and> isRequired f) fs)"
  by (induction fs arbitrary: s) auto

lemma schemaFields_keys:
  "fst ` set (Properties (schemaFields fs s)) =
     fst ` set (Properties s) \<union> fieldName ` {f \<in> set fs. \<not> skipped f}"
  by (induction fs arbitrary: s) (auto simp: dom_update)

lemma schemaFields_skip:
  "schemaFields (filter (\<lambda>f. \<not> skipped f) fs) s = schemaFields fs s"
  by (induction fs arbitrary: s) auto

lemma structFields_required:
  "snd (structFields fs props req) =
     req @ map fieldName (filter (\<lambda>f. \<not> skipped f \<and> isRequired f) fs)"
proof (induction fs arbitrary: props req)
  case Nil
  then show ?case by simp
next
  case (Cons f fs)
  then show ?case by (cases f) (simp add: Let_def)
qed

lemma structFields_keys:
  "fst ` set (fst (structFields fs props req)) =
     fst ` set props \<union> fieldName ` {f \<in> set fs. \<not> skipped f}"
proof (induction fs arbitrary: props req)
  case Nil
  then show ?case by simp
next
  case (Cons f fs)
  show ?case
  proof (cases f)
    case (Field n p tg t)
    show ?thesis
    proof (cases "skipped f")
      case True
      with Field Cons.IH show ?thesis by auto
    next
      case False
      with Field Cons.IH show ?thesis by (auto simp: Let_def dom_update)
    qed
  qed
qed

lemma schema_struct:
  assumes "freeParams f = [TStruct fs]"
  shows "generateSchemaFromFunction (fnIn f) = schemaFields fs emptySchema"
proof -
  from freeParams_nth[OF assms]
  have "argIndex f < length (fnIn f)" and "fnIn f ! argIndex f = TStruct fs" by simp_all
  then show ?thesis
    unfolding generateSchemaFromFunction_def startIndex_argIndex
    by (simp add: Let_def isStringAnyMap_def)
qed

lemma schema_struct_only:
  "generateSchemaFromFunction [TStruct fs] = schemaFields fs emptySchema"
  by (simp add: generateSchemaFromFunction_def implements_def errorImplT_def contextImplT_def
        isStringAnyMap_def)

lemma required_iff:
  assumes d: "distinct (map fieldName (filter (\<lambda>g. \<not> skipped g) fs))"
    and m: "fld \<in> set fs" and k: "\<not> skipped fld"
  shows "fieldName fld \<in> set (map fieldName (filter (\<lambda>g. \<not> skipped g \<and> isRequired g) fs))
           \<longleftrightarrow> isRequired fld"
proof
  assume "fieldName fld \<in> set (map fieldName (filter (\<lambda>g. \<not> skipped g \<and> isRequired g) fs))"
  then obtain g where g: "g \<in> set fs" "\<not> skipped g" "isRequired g" "fieldName g = fieldName fld"
    by auto
  from d have "inj_on fieldName (set (filter (\<lambda>g. \<not> skipped g) fs))"
    by (simp add: distinct_map)
  with g m k have "g = fld"
    by (auto dest: inj_onD)
  with g show "isRequired fld" by simp
next
  assume "isRequired fld"
  with m k show "fieldName fld \<in> set (map fieldName (filter (\<lambda>g. \<not> skipped g \<and> isRequired g) fs))"
    by auto
qed

lemma dupFields_schema:
  "generateSchemaFromFunction [TStruct dupFields] =
     \<lparr>Type = ''object'', Properties = [(''x'', [(''type'', JStr ''string'')])], Required = [''x'']\<rparr>"
  by (simp add: schema_struct_only dupFields_def emptySchema_def skipped_def jsonTag_def
        tagGet_def fieldName_def isRequired_def withDescription_def)

lemma hiddenFields_schema:
  "generateSchemaFromFunction [TStruct hiddenFields] =
     \<lparr>Type = ''object'', Properties = [], Required = []\<rparr>"
  by (simp add: schema_struct_only hiddenFields_def emptySchema_def skipped_def)

lemma idNote_schema:
  "generateSchemaFromFunction (fnIn idNoteFunc) =
     \<lparr>Type = ''object'',
      Properties = [(''id'', [(''type'', JStr ''integer'')]), (''note'', [(''type'', JStr ''string'')])],
      Required = [''id'']\<rparr>"
  by (simp add: idNoteFunc_def schema_struct_only idNoteFields_def emptySchema_def skipped_def
        jsonTag_def tagGet_def fieldName_def isRequired_def withDescription_def)

lemma ab_schema:
  "generateSchemaFromFunction (fnIn abFunc) =
     \<lparr>Type = ''object'',
      Properties = [(''A'', [(''type'', JStr ''boolean'')]), (''B'', [(''type'', JStr ''integer'')])],
      Required = [''A'', ''B'']\<rparr>"
  by (simp add: abFunc_def schema_struct_only abFields_def emptySchema_def skipped_def
        jsonTag_def tagGet_def fieldName_def isRequired_def withDescription_def)

lemma abFunc_shape: "freeParams abFunc = [TStruct abFields]"
  by (simp add: abFunc_def freeParams_def argIndex_def hasContext_def implements_def
        errorImplT_def contextImplT_def)

section \<open>Facts about the coercions and the handler\<close>

lemma flagTool_shape: "freeParams (func flagTool) = [TStruct flagFields]"
  by (simp add: flagTool_def NewFunctionTool_def flagFunc_def freeParams_def argIndex_def
        hasContext_def implements_def errorImplT_def contextImplT_def)

lemma float_to_bool_panics: "convertToType X (VFloat64 w) TBool = Panic"
  by (simp add: convertToType.simps(1) assignableTo_def toBool_def)

lemma flagTool_panics: "Execute X flagTool ctx [(''flag'', VFloat64 w)] pick = (Panicked, [])"
proof -
  have "bindStruct X [(''flag'', VFloat64 w)] flagFields = Panic"
    by (simp add: flagFields_def paramKey_def tagGet_def float_to_bool_panics)
  then have "Bind X (func flagTool) ctx [(''flag'', VFloat64 w)] pick = Panic"
    by (simp add: Bind_struct[OF flagTool_shape])
  then show ?thesis
    by (simp add: Execute_def)
qed

text \<open>
  What the handler does on every call that does not panic: its own error is nil, and the
  payload is an error payload exactly when decoding, \<^verbatim>\<open>Execute\<close> or the encoding of the
  result gave an error.
\<close>

lemma Handler_error_nil: "Handler X t ctx arguments pick = HandlerReturns r e \<Longrightarrow> e = None"
  by (auto simp: Handler_def split: sum.splits result.splits option.splits if_splits)

lemma Handler_decode_error:
  "decodeArguments X arguments = Inl e \<Longrightarrow>
     Handler X t ctx arguments pick = HandlerReturns (ToolResultError (errorText X e)) None"
  by (simp add: Handler_def)

lemma Handler_execute_error:
  "decodeArguments X arguments = Inr params \<Longrightarrow>
   fst (Execute X t ctx params pick) = Returned r (VError e) \<Longrightarrow>
     Handler X t ctx arguments pick = HandlerReturns (ToolResultError (errorText X e)) None"
  by (simp add: Handler_def errorString_def)

lemma Handler_success:
  "decodeArguments X arguments = Inr params \<Longrightarrow>
   fst (Execute X t ctx params pick) = Returned r VNil \<Longrightarrow>
     Handler X t ctx arguments pick =
       (case jsonMarshal X r of
          Inl e \<Rightarrow> HandlerReturns (ToolResultError (errorText X e)) None
        | Inr buf \<Rightarrow> HandlerReturns (ToolResultText buf) None)"
  by (simp add: Handler_def)

text \<open>
  What \<^verbatim>\<open>convertToType\<close> does for a boolean and for a signed integer target on the inputs
  that it reads without a panic.
\<close>

lemma to_bool_from_signed: "convertToType X (VInt j i) TBool = Ok (VBool (i \<noteq> 0))"
  by (simp add: convertToType.simps(1) assignableTo_def toBool_def)

lemma to_bool_from_bool: "convertToType X (VBool b) TBool = Ok (VBool b)"
  by (simp add: convertToType.simps(1) assignableTo_def)

lemma to_bool_from_string:
  "convertToType X (VString s) TBool =
     (case ParseBool s of
        Inl e \<Rightarrow> Err (ErrToBool (VString s) (Some e))
      | Inr b \<Rightarrow> Ok (VBool b))"
  by (simp add: convertToType.simps(1) assignableTo_def toBool_def)

lemma to_int_from_signed:
  "convertToType X (VInt j i) (TInt k) = (if j = k then Ok (VInt j i) else Ok (convertInt k i))"
  by (simp add: convertToType.simps(1) assignableTo_def toInt_def)

lemma to_int_from_float:
  "convertToType X (VFloat64 w) (TInt k) = Ok (convertInt k (floatToInt64 X w))"
  by (simp add: convertToType.simps(1) assignableTo_def toInt_def)

lemma to_int_from_string:
  "convertToType X (VString s) (TInt k) =
     (case ParseInt s of
        Inl e \<Rightarrow> Err (ErrToInt (VString s) (Some e))
      | Inr i \<Rightarrow> Ok (convertInt k i))"
  by (simp add: convertToType.simps(1) assignableTo_def toInt_def)

section \<open>Rendering and parsing integers\<close>

lemma digitVal_digitChar: "d < 10 \<Longrightarrow> digitVal (digitChar d) = Some d"
proof -
  assume "d < 10"
  then have "d \<in> {0, 1, 2, 3, 4, 5, 6, 7, 8, 9}" by auto
  then show ?thesis
    by (auto simp: digitVal_def digitChar_def)
qed

lemma digitChar_no_sign: "d < 10 \<Longrightarrow> digitChar d \<noteq> CHR ''+'' \<and> digitChar d \<noteq> CHR ''-''"
proof -
  assume "d < 10"
  then have "d \<in> {0, 1, 2, 3, 4, 5, 6, 7, 8, 9}" by auto
  then show ?thesis
    by (auto simp: digitChar_def)
qed

lemma parseUintLoop_append:
  "parseUintLoop (xs @ ys) n =
     (case parseUintLoop xs n of (m, None) \<Rightarrow> parseUintLoop ys m | (m, Some e) \<Rightarrow> (m, Some e))"
  by (induction xs arbitrary: n) (auto split: option.splits)

declare digits.simps [simp del]

lemma digits_nonempty: "digits n \<noteq> []"
  by (subst digits.simps) simp

lemma hd_digits: "\<exists>d<10. hd (digits n) = digitChar d"
proof (induction n rule: digits.induct)
  case (1 n)
  show ?case
  proof (cases "n < 10")
    case True
    then show ?thesis by (subst digits.simps) auto
  next
    case False
    with 1 obtain d where "d < 10" "hd (digits (n div 10)) = digitChar d" by blast
    with False show ?thesis
      by (subst digits.simps) (auto simp: digits_nonempty)
  qed
qed

lemma parse_digits: "n \<le> maxUint64 \<Longrightarrow> parseUintLoop (digits n) 0 = (n, None)"
proof (induction n rule: digits.induct)
  case (1 n)
  show ?case
  proof (cases "n < 10")
    case True
    with 1(2) show ?thesis
      by (subst digits.simps) (simp add: digitVal_digitChar maxUint64_def)
  next
    case False
    from 1(2) have le: "n div 10 \<le> maxUint64" by simp
    have ih: "parseUintLoop (digits (n div 10)) 0 = (n div 10, None)"
      using 1(1)[OF False le] .
    have d: "digitVal (digitChar (n mod 10)) = Some (n mod 10)"
      by (simp add: digitVal_digitChar)
    from 1(2) have c: "n div 10 < Suc (maxUint64 div 10)" and m: "\<not> maxUint64 < n"
      by (simp_all add: maxUint64_def)
    from False m c show ?thesis
      by (subst digits.simps) (simp add: parseUintLoop_append ih d)
  qed
qed

lemma ParseInt_fmtInt:
  assumes "- (2 ^ 63) \<le> i" and "i < 2 ^ 63"
  shows "ParseInt (fmtInt i) = Inr i"
proof (cases "i < 0")
  case True
  with assms have le: "nat (- i) \<le> maxUint64" and b: "\<not> nat (- i) > 2 ^ 63"
    by (simp_all add: maxUint64_def)
  from True assms show ?thesis
    by (simp add: ParseInt_def fmtInt_def ParseUint_def digits_nonempty parse_digits[OF le])
next
  case False
  with assms have le: "nat i \<le> maxUint64" and b: "\<not> nat i \<ge> 2 ^ 63"
    by (simp_all add: maxUint64_def)
  obtain d where d: "d < 10" "hd (digits (nat i)) = digitChar d"
    using hd_digits by blast
  from digitChar_no_sign[OF d(1)] d(2)
  have s: "hd (digits (nat i)) \<noteq> CHR ''+''" "hd (digits (nat i)) \<noteq> CHR ''-''" by simp_all
  from False assms have n: "\<not> 9223372036854775808 \<le> nat i" by simp
  from False n show ?thesis
    by (simp add: ParseInt_def fmtInt_def ParseUint_def digits_nonempty parse_digits[OF le] s
          Let_def)
qed

lemma bits_le_64: "bits k \<le> 64" and bits_pos: "0 < bits k"
  by (cases k; simp)+

text \<open>
  The round trip through text, for a boolean, a string and a signed integer in the range of
  its type.
\<close>

lemma round_trip_bool: "convertToType X (VString (sprintV X (VBool b))) TBool = Ok (VBool b)"
  by (simp add: sprintV_def to_bool_from_string ParseBool_def)

lemma round_trip_string: "convertToType X (VString (sprintV X (VString s))) TString = Ok (VString s)"
  by (simp add: sprintV_def convertToType.simps(1) assignableTo_def)

lemma round_trip_signed:
  assumes lo: "- (2 ^ (bits k - 1)) \<le> i" and hi: "i < 2 ^ (bits k - 1)"
  shows "convertToType X (VString (sprintV X (VInt k i))) (TInt k) = Ok (VInt k i)"
proof -
  have p: "(2::int) ^ (bits k - 1) \<le> 2 ^ 63"
    by (rule power_increasing) (use bits_le_64[of k] in simp_all)
  from lo hi p have r: "- (2 ^ 63) \<le> i" "i < 2 ^ 63" by simp_all
  have t: "signed_take_bit (bits k - Suc 0) i = i"
    using lo hi by (simp add: signed_take_bit_int_eq_self)
  show ?thesis
    by (simp add: sprintV_def to_int_from_string ParseInt_fmtInt[OF r] convertInt_def t)
qed

section \<open>The claims\<close>

text \<open>
  C1. Binding a struct parameter: a field whose key is absent from the input map keeps the
  zero value of its type, and the binder raises no error for it. Whatever error the binder
  returns is the conversion error of an entry that is present, never \<open>ErrRequired\<close>; when no
  field has an entry the binder returns the zero struct. For the shape
  \<open>{id: int, note: string (omitempty)}\<close> and the input \<open>{"id": "42"}\<close> it returns
  \<open>id = 42\<close>, \<open>note = ""\<close>.
\<close>

theorem C1_absent_fields_keep_zero:
  assumes shape: "freeParams f = [TStruct fs]"
  shows "(case Bind X f ctx params pick of
            Panic \<Rightarrow> True
          | Err e \<Rightarrow>
              e \<noteq> ErrRequired \<and>
              (\<exists>fld\<in>set fs. \<exists>v c. map_of params (paramKey fld) = Some v \<and>
                  convertToType X v (ftype fld) = Err c \<and> e = ErrParameter (paramKey fld) c)
          | Ok args \<Rightarrow>
              (\<exists>vals. args = ctxArgs f ctx @ [Some (VStruct fs vals)] \<and> length vals = length fs \<and>
                 (\<forall>j<length fs. map_of params (paramKey (fs ! j)) = None \<longrightarrow>
                     vals ! j = zeroValue (ftype (fs ! j)))))
       \<and> ((\<forall>fld\<in>set fs. map_of params (paramKey fld) = None) \<longrightarrow>
            Bind X f ctx params pick = Ok (ctxArgs f ctx @ [Some (zeroValue (TStruct fs))]))
       \<and> Bind X idNoteFunc ctx [(''id'', VString ''42'')] pick =
            Ok [Some (VStruct idNoteFields [VInt KInt 42, VString []])]"
proof (intro conjI)
  show "case Bind X f ctx params pick of
            Panic \<Rightarrow> True
          | Err e \<Rightarrow>
              e \<noteq> ErrRequired \<and>
              (\<exists>fld\<in>set fs. \<exists>v c. map_of params (paramKey fld) = Some v \<and>
                  convertToType X v (ftype fld) = Err c \<and> e = ErrParameter (paramKey fld) c)
          | Ok args \<Rightarrow>
              (\<exists>vals. args = ctxArgs f ctx @ [Some (VStruct fs vals)] \<and> length vals = length fs \<and>
                 (\<forall>j<length fs. map_of params (paramKey (fs ! j)) = None \<longrightarrow>
                     vals ! j = zeroValue (ftype (fs ! j))))"
  proof (cases "bindStruct X params fs")
    case Panic
    then show ?thesis by (simp add: Bind_struct[OF shape])
  next
    case (Err e)
    from bindStruct_Err[OF this] Err show ?thesis
      by (auto simp: Bind_struct[OF shape])
  next
    case (Ok vals)
    from bindStruct_length[OF this] bindStruct_absent[OF this] Ok show ?thesis
      by (simp add: Bind_struct[OF shape])
  qed
next
  show "(\<forall>fld\<in>set fs. map_of params (paramKey fld) = None) \<longrightarrow>
            Bind X f ctx params pick = Ok (ctxArgs f ctx @ [Some (zeroValue (TStruct fs))])"
    by (simp add: Bind_struct[OF shape] bindStruct_all_absent)
next
  show "Bind X idNoteFunc ctx [(''id'', VString ''42'')] pick =
            Ok [Some (VStruct idNoteFields [VInt KInt 42, VString []])]"
    by (rule idNote_bind)
qed

theorem C1_absent_fields_keep_zero_witness:
  "freeParams idNoteFunc = [TStruct idNoteFields]
   \<and> map_of [(''id'', VString ''42'')] (paramKey (idNoteFields ! 1)) = None
   \<and> Bind exampleLib idNoteFunc VNil [(''id'', VString ''42'')] (\<lambda>i. ''id'') =
        Ok [Some (VStruct idNoteFields [VInt KInt 42, VString []])]
   \<and> [VInt KInt 42, VString []] ! 1 = zeroValue (ftype (idNoteFields ! 1))
   \<and> Bind exampleLib idNoteFunc VNil [] (\<lambda>i. []) = Ok [Some (zeroValue (TStruct idNoteFields))]"
proof -
  note th = C1_absent_fields_keep_zero[where X = exampleLib and ctx = VNil and params = "[]"
              and pick = "\<lambda>i. []", OF idNoteFunc_shape]
  note ex = C1_absent_fields_keep_zero[where X = exampleLib and ctx = VNil
              and params = "[(''id'', VString ''42'')]" and pick = "\<lambda>i. ''id''",
              OF idNoteFunc_shape]
  have absent: "map_of [(''id'', VString ''42'')] (paramKey (idNoteFields ! 1)) = None"
    by (simp add: idNoteFields_def paramKey_def tagGet_def)
  have z: "[VInt KInt 42, VString []] ! 1 = zeroValue (ftype (idNoteFields ! 1))"
    by (simp add: idNoteFields_def)
  from th have "Bind exampleLib idNoteFunc VNil [] (\<lambda>i. []) = Ok [Some (zeroValue (TStruct idNoteFields))]"
    by (simp add: idNoteFunc_noctx)
  with ex idNoteFunc_shape absent z show ?thesis by simp
qed




text \<open>
  C3. The claim covers every integer target, signed or unsigned, and every integer input.
  The switch of \<^verbatim>\<open>convertToType\<close> has a case for the signed kinds only (line 524), so for
  an unsigned target a string, a float and an integer of another type all end in the
  error of line 606; and on a signed target an unsigned input is read with
  \<^verbatim>\<open>reflect.Value.Int\<close> (line 528), which panics.
\<close>

theorem C3_unsigned_not_converted:
  "convertToType X (VString ''42'') (TUint KUint) =
     Err (ErrNoConversion (VString ''42'') (TUint KUint))
   \<and> convertToType X (VFloat64 w) (TUint KUint) = Err (ErrNoConversion (VFloat64 w) (TUint KUint))
   \<and> convertToType X (VInt KInt 5) (TUint KUint8) = Err (ErrNoConversion (VInt KInt 5) (TUint KUint8))
   \<and> convertToType X (VUint KUint8 5) (TInt KInt) = Panic"
  by (simp add: convertToType.simps(1) assignableTo_def toInt_def)

text \<open>
  C4. The claim has every numeric input give \<open>true\<close> exactly when it is not zero. The
  numeric case of the boolean target (line 513) reads the value with
  \<^verbatim>\<open>reflect.Value.Int\<close>, which panics on the unsigned and on the float kinds; only a signed
  integer is converted.
\<close>

theorem C4_numeric_to_bool_panics:
  "convertToType X (VFloat64 w) TBool = Panic
   \<and> convertToType X (VFloat32 w') TBool = Panic
   \<and> convertToType X (VUint k n) TBool = Panic
   \<and> convertToType X (VInt KInt 3) TBool = Ok (VBool True)
   \<and> convertToType X (VString ''maybe'') TBool =
       Err (ErrToBool (VString ''maybe'') (Some (NumError ''ParseBool'' ''maybe'' ErrSyntax)))"
  by (simp add: convertToType.simps(1) assignableTo_def toBool_def ParseBool_def)

text \<open>
  C5. The claim has every call end in a payload. The tool of
  \<^verbatim>\<open>func(p struct { Flag bool `json:"flag"` })\<close> is called with the arguments
  \<^verbatim>\<open>{"flag": 1}\<close>, which decode to a map that holds the \<^verbatim>\<open>float64\<close> 1: \<^verbatim>\<open>Execute\<close> panics
  in the coercion to \<^verbatim>\<open>bool\<close>, the handler has no \<^verbatim>\<open>recover\<close>, and so it returns nothing.
\<close>

theorem C5_handler_panics:
  "decodeArguments X arguments = Inr [(''flag'', VFloat64 w)] \<longrightarrow>
     Handler X flagTool ctx arguments pick = HandlerPanics"
  by (simp add: Handler_def flagTool_panics)

theorem C5_handler_panics_witness:
  "decodeArguments flagLib (VMap (TInterface AnyI) [(''flag'', VFloat64 0x3FF0000000000000)]) =
     Inr [(''flag'', VFloat64 0x3FF0000000000000)]
   \<and> Handler flagLib flagTool (VContext 0)
        (VMap (TInterface AnyI) [(''flag'', VFloat64 0x3FF0000000000000)]) (\<lambda>i. ''flag'') =
      HandlerPanics"
proof -
  have d: "decodeArguments flagLib (VMap (TInterface AnyI) [(''flag'', VFloat64 0x3FF0000000000000)]) =
     Inr [(''flag'', VFloat64 0x3FF0000000000000)]"
    by (simp add: decodeArguments_def flagLib_def)
  from C5_handler_panics[where X = flagLib and ctx = "VContext 0" and pick = "\<lambda>i. ''flag''"
      and arguments = "VMap (TInterface AnyI) [(''flag'', VFloat64 0x3FF0000000000000)]"
      and w = "0x3FF0000000000000"] d
  show ?thesis by blast
qed

text \<open>
  C6. How \<^verbatim>\<open>Execute\<close> reads the results of the wrapped function, once it has called it and
  the call has returned: no result gives \<open>(nil, nil)\<close>; one result gives that value and a
  nil error; two results, the second declared as \<^verbatim>\<open>error\<close>, give the first value, with a nil
  error when the second is nil, and with the second itself as the error when it is not nil,
  whatever value implementing \<^verbatim>\<open>error\<close> it holds.
\<close>

theorem C6_return_values:
  assumes invoked: "snd (Execute X t ctx params pick) = [actual]"
    and returned: "fnBody (func t) actual = Some results"
  shows "(results = [] \<longrightarrow> fst (Execute X t ctx params pick) = Returned VNil VNil)
       \<and> (results = [r] \<longrightarrow> fst (Execute X t ctx params pick) = Returned (snd r) VNil)
       \<and> (results = [r, (TInterface ErrorI, VNil)] \<longrightarrow>
            fst (Execute X t ctx params pick) = Returned (snd r) VNil)
       \<and> (results = [r, (TInterface ErrorI, err)] \<and> err \<noteq> VNil \<and> implements (typeOf err) ErrorI \<longrightarrow>
            fst (Execute X t ctx params pick) = Returned (snd r) err)"
proof -
  have "Execute X t ctx params pick = (handleResults results, [actual])"
    using Execute_invoked[OF invoked] returned by simp
  then show ?thesis
    by (simp add: handleResults_def asError_def)
qed

theorem C6_return_values_witness:
  "snd (Execute exampleLib (constTool []) VNil [] (\<lambda>i. [])) = [[]]
   \<and> fst (Execute exampleLib (constTool []) VNil [] (\<lambda>i. [])) = Returned VNil VNil
   \<and> fnBody (func (constTool [(TString, VString ''ok'')])) [] = Some [(TString, VString ''ok'')]
   \<and> fst (Execute exampleLib (constTool [(TString, VString ''ok'')]) VNil [] (\<lambda>i. [])) =
       Returned (VString ''ok'') VNil
   \<and> fst (Execute exampleLib (constTool [(TString, VString ''ok''), (TInterface ErrorI, VNil)])
            VNil [] (\<lambda>i. [])) = Returned (VString ''ok'') VNil
   \<and> implements (typeOf (VError (ErrOther ''boom''))) ErrorI
   \<and> fst (Execute exampleLib
            (constTool [(TString, VString ''part''), (TInterface ErrorI, VError (ErrOther ''boom''))])
            VNil [] (\<lambda>i. [])) = Returned (VString ''part'') (VError (ErrOther ''boom''))
   \<and> implements (typeOf (VTypedNil errorImplT)) ErrorI
   \<and> fst (Execute exampleLib
            (constTool [(TString, VString ''part''), (TInterface ErrorI, VTypedNil errorImplT)])
            VNil [] (\<lambda>i. [])) = Returned (VString ''part'') (VTypedNil errorImplT)"
proof -
  have inv: "snd (Execute exampleLib (constTool rs) VNil [] (\<lambda>i. [])) = [[]]" for rs
    by (simp add: constTool_Execute)
  have ret: "fnBody (func (constTool rs)) [] = Some rs" for rs
    by (simp add: constTool_func constFunc_def)
  have i1: "implements (typeOf (VError (ErrOther ''boom''))) ErrorI"
    by (simp add: implements_def)
  have i2: "implements (typeOf (VTypedNil errorImplT)) ErrorI"
    by (simp add: implements_def)
  note a = C6_return_values[where X = exampleLib and ctx = VNil and params = "[]"
             and pick = "\<lambda>i. []" and actual = "[]"]
  note n0 = a[where t = "constTool []" and results = "[]", OF inv ret]
  note n1 = a[where t = "constTool [(TString, VString ''ok'')]"
             and results = "[(TString, VString ''ok'')]" and r = "(TString, VString ''ok'')",
             OF inv ret]
  note n2 = a[where t = "constTool [(TString, VString ''ok''), (TInterface ErrorI, VNil)]"
             and results = "[(TString, VString ''ok''), (TInterface ErrorI, VNil)]"
             and r = "(TString, VString ''ok'')", OF inv ret]
  note n3 = a[where
             t = "constTool [(TString, VString ''part''), (TInterface ErrorI, VError (ErrOther ''boom''))]"
             and results = "[(TString, VString ''part''), (TInterface ErrorI, VError (ErrOther ''boom''))]"
             and r = "(TString, VString ''part'')" and err = "VError (ErrOther ''boom'')", OF inv ret]
  note n4 = a[where
             t = "constTool [(TString, VString ''part''), (TInterface ErrorI, VTypedNil errorImplT)]"
             and results = "[(TString, VString ''part''), (TInterface ErrorI, VTypedNil errorImplT)]"
             and r = "(TString, VString ''part'')" and err = "VTypedNil errorImplT", OF inv ret]
  have m3: "fst (Execute exampleLib
            (constTool [(TString, VString ''part''), (TInterface ErrorI, VError (ErrOther ''boom''))])
            VNil [] (\<lambda>i. [])) = Returned (VString ''part'') (VError (ErrOther ''boom''))"
    using n3 i1 by simp
  have m4: "fst (Execute exampleLib
            (constTool [(TString, VString ''part''), (TInterface ErrorI, VTypedNil errorImplT)])
            VNil [] (\<lambda>i. [])) = Returned (VString ''part'') (VTypedNil errorImplT)"
    using n4 i2 by simp
  from n0 n1 n2 m3 m4 inv ret i1 i2
  show ?thesis by simp
qed

text \<open>
  C7, as the claim states it, fails, at two places. In
  \<^verbatim>\<open>struct { A string `json:"x"`; B string `json:"x,omitempty"` }\<close> field \<open>B\<close> carries
  \<open>omitempty\<close>, yet its name \<open>x\<close> is in \<open>required\<close>, put there by \<open>A\<close>. In
  \<^verbatim>\<open>struct { secret string }\<close> the field has no tag, yet its name is not in \<open>required\<close>:
  line 328 skips a field that is not exported.
\<close>

theorem C7_required_counterexample:
  "omitempty (dupFields ! 1) \<and> pkgPath (dupFields ! 1) = [] \<and> fieldName (dupFields ! 1) = ''x''
   \<and> ''x'' \<in> set (Required (generateSchemaFromFunction [TStruct dupFields]))
   \<and> jsonTag (hiddenFields ! 0) = [] \<and> fname (hiddenFields ! 0) = ''secret''
   \<and> ''secret'' \<notin> set (Required (generateSchemaFromFunction [TStruct hiddenFields]))"
  by (simp add: dupFields_schema hiddenFields_schema)
     (simp add: dupFields_def hiddenFields_def omitempty_def jsonTag_def tagGet_def fieldName_def)

text \<open>
  C7, amended. A field is left out of the schema when it is not exported or when the name in
  its \<open>json\<close> tag is \<open>-\<close> (\<open>skipped\<close>); the schema is that of the struct without these
  fields. Every other field has a property under its name, which is the name in the tag, or
  the declared name when there is no \<open>json\<close> tag, and the schema has no other property.
  Such a field without a \<open>json\<close> tag is in \<open>required\<close>. When the names of these fields are
  pairwise distinct, the name of such a field is in \<open>required\<close> exactly when its tag does not
  carry \<open>omitempty\<close>. Every name in \<open>required\<close> is a key of \<open>properties\<close>. The schema of a
  nested struct has the same \<open>required\<close> and the same keys of \<open>properties\<close>.
\<close>

theorem C7_required_and_properties:
  assumes shape: "freeParams f = [TStruct fs]"
    and S: "S = generateSchemaFromFunction (fnIn f)"
  shows "set (Required S) \<subseteq> fst ` set (Properties S)
       \<and> fst ` set (Properties S) = fieldName ` {g \<in> set fs. \<not> skipped g}
       \<and> generateSchemaFromFunction [TStruct (filter (\<lambda>g. \<not> skipped g) fs)] = S
       \<and> (fld \<in> set fs \<and> pkgPath fld = [] \<and> jsonTag fld = [] \<longrightarrow>
            fname fld \<in> set (Required S) \<and> fname fld \<in> fst ` set (Properties S))
       \<and> (distinct (map fieldName (filter (\<lambda>g. \<not> skipped g) fs)) \<and> fld \<in> set fs \<and> \<not> skipped fld \<longrightarrow>
            (fieldName fld \<in> set (Required S) \<longleftrightarrow> \<not> omitempty fld))
       \<and> (\<exists>props. getTypeSchema (TStruct fs) =
              [(''type'', JStr ''object''), (''properties'', JObj props), (''required'', JStrs (Required S))]
            \<and> fst ` set props = fst ` set (Properties S))"
proof -
  have S': "S = schemaFields fs emptySchema"
    by (simp add: S schema_struct[OF shape])
  have req: "Required S = map fieldName (filter (\<lambda>g. \<not> skipped g \<and> isRequired g) fs)"
    by (simp add: S' schemaFields_Required emptySchema_def)
  have keys: "fst ` set (Properties S) = fieldName ` {g \<in> set fs. \<not> skipped g}"
    by (simp add: S' schemaFields_keys emptySchema_def)
  have sub: "set (Required S) \<subseteq> fst ` set (Properties S)"
    unfolding req keys by auto
  have flt: "generateSchemaFromFunction [TStruct (filter (\<lambda>g. \<not> skipped g) fs)] = S"
    by (simp add: schema_struct_only schemaFields_skip S')
  have untagged: "fld \<in> set fs \<and> pkgPath fld = [] \<and> jsonTag fld = [] \<longrightarrow>
            fname fld \<in> set (Required S) \<and> fname fld \<in> fst ` set (Properties S)"
  proof
    assume h: "fld \<in> set fs \<and> pkgPath fld = [] \<and> jsonTag fld = []"
    then have a: "\<not> skipped fld" "isRequired fld" "fieldName fld = fname fld"
      by (simp_all add: skipped_def isRequired_def fieldName_def)
    from h a(1,2) have "fld \<in> {g \<in> set fs. \<not> skipped g \<and> isRequired g}"
      by simp
    then have "fieldName fld \<in> fieldName ` {g \<in> set fs. \<not> skipped g \<and> isRequired g}"
      by (rule imageI)
    then have "fieldName fld \<in> set (Required S)"
      by (simp add: req)
    moreover from h a(1) have "fld \<in> {g \<in> set fs. \<not> skipped g}"
      by simp
    then have "fieldName fld \<in> fieldName ` {g \<in> set fs. \<not> skipped g}"
      by (rule imageI)
    then have "fieldName fld \<in> fst ` set (Properties S)"
      by (simp only: keys)
    ultimately show "fname fld \<in> set (Required S) \<and> fname fld \<in> fst ` set (Properties S)"
      by (simp only: a(3))
  qed
  have iff: "distinct (map fieldName (filter (\<lambda>g. \<not> skipped g) fs)) \<and> fld \<in> set fs \<and> \<not> skipped fld \<longrightarrow>
            (fieldName fld \<in> set (Required S) \<longleftrightarrow> \<not> omitempty fld)"
  proof
    assume h: "distinct (map fieldName (filter (\<lambda>g. \<not> skipped g) fs)) \<and> fld \<in> set fs \<and> \<not> skipped fld"
    then have "fieldName fld \<in> set (map fieldName (filter (\<lambda>g. \<not> skipped g \<and> isRequired g) fs))
                 \<longleftrightarrow> isRequired fld"
      by (intro required_iff) simp_all
    then show "fieldName fld \<in> set (Required S) \<longleftrightarrow> \<not> omitempty fld"
      by (simp add: req isRequired_omitempty)
  qed
  obtain props rq where pr: "structFields fs [] [] = (props, rq)"
    by (cases "structFields fs [] []")
  from structFields_required[of fs "[]" "[]"] pr have rq: "rq = Required S"
    by (simp add: req)
  from structFields_keys[of fs "[]" "[]"] pr have pk: "fst ` set props = fst ` set (Properties S)"
    by (simp add: keys)
  have nested: "\<exists>props. getTypeSchema (TStruct fs) =
              [(''type'', JStr ''object''), (''properties'', JObj props), (''required'', JStrs (Required S))]
            \<and> fst ` set props = fst ` set (Properties S)"
    using pr rq pk by simp
  from sub keys flt untagged iff nested show ?thesis
    by blast
qed

theorem C7_required_and_properties_witness:
  "freeParams abFunc = [TStruct abFields]
   \<and> abFields ! 0 \<in> set abFields \<and> pkgPath (abFields ! 0) = [] \<and> jsonTag (abFields ! 0) = []
   \<and> fname (abFields ! 0) \<in> set (Required (generateSchemaFromFunction (fnIn abFunc)))
   \<and> freeParams idNoteFunc = [TStruct idNoteFields]
   \<and> distinct (map fieldName (filter (\<lambda>g. \<not> skipped g) idNoteFields))
   \<and> idNoteFields ! 1 \<in> set idNoteFields \<and> \<not> skipped (idNoteFields ! 1)
   \<and> omitempty (idNoteFields ! 1)
   \<and> fieldName (idNoteFields ! 1) \<notin> set (Required (generateSchemaFromFunction (fnIn idNoteFunc)))
   \<and> set (Required (generateSchemaFromFunction (fnIn idNoteFunc)))
        \<subseteq> fst ` set (Properties (generateSchemaFromFunction (fnIn idNoteFunc)))
   \<and> Required (generateSchemaFromFunction (fnIn idNoteFunc)) = [''id'']"
proof -
  note ta = C7_required_and_properties[where f = abFunc and fs = abFields
              and fld = "abFields ! 0", OF abFunc_shape refl]
  note ti = C7_required_and_properties[where f = idNoteFunc and fs = idNoteFields
              and fld = "idNoteFields ! 1", OF idNoteFunc_shape refl]
  have a: "abFields ! 0 \<in> set abFields \<and> pkgPath (abFields ! 0) = [] \<and> jsonTag (abFields ! 0) = []"
    by (simp add: abFields_def jsonTag_def tagGet_def)
  have d: "distinct (map fieldName (filter (\<lambda>g. \<not> skipped g) idNoteFields))"
    by (simp add: idNoteFields_def skipped_def jsonTag_def tagGet_def fieldName_def)
  have m: "idNoteFields ! 1 \<in> set idNoteFields \<and> \<not> skipped (idNoteFields ! 1)"
    by (simp add: idNoteFields_def skipped_def jsonTag_def tagGet_def fieldName_def)
  have o: "omitempty (idNoteFields ! 1)"
    by (simp add: idNoteFields_def omitempty_def jsonTag_def tagGet_def)
  from ta a have r1: "fname (abFields ! 0) \<in> set (Required (generateSchemaFromFunction (fnIn abFunc)))"
    by blast
  from ti d m o
  have r2: "fieldName (idNoteFields ! 1) \<notin> set (Required (generateSchemaFromFunction (fnIn idNoteFunc)))"
    by blast
  from ti
  have r3: "set (Required (generateSchemaFromFunction (fnIn idNoteFunc)))
        \<subseteq> fst ` set (Properties (generateSchemaFromFunction (fnIn idNoteFunc)))"
    by blast
  have r4: "Required (generateSchemaFromFunction (fnIn idNoteFunc)) = [''id'']"
    by (simp add: idNote_schema)
  from abFunc_shape idNoteFunc_shape a d m o r1 r2 r3 r4 show ?thesis
    by blast
qed

text \<open>
  What holds of a failed bind on every input. When the binder returns an error, \<^verbatim>\<open>Execute\<close>
  returns a nil result and that error, which names a key and wraps the conversion error of
  the entry under it, and the wrapped function has not been called; the function is
  called only after every parameter has been bound. For a struct parameter, the first
  field whose entry fails to convert, after fields that were bound, gives the error, and a
  failing entry of any exported field excludes both a call and a successful return.
\<close>

lemma failed_bind_never_invokes:
  "(Bind X (func t) ctx params pick = Err e \<longrightarrow>
      Execute X t ctx params pick = (Returned VNil (VError e), []) \<and>
      (\<exists>k c v ty. e = ErrParameter k c \<and> map_of params k = Some v \<and>
          convertToType X v ty = Err c))
   \<and> (snd (Execute X t ctx params pick) \<noteq> [] \<longrightarrow>
        (\<exists>args. Bind X (func t) ctx params pick = Ok args))
   \<and> (freeParams (func t) = [TStruct (pre @ fld # post)] \<and> bindStruct X params pre = Ok vals \<and>
        pkgPath fld = [] \<and> map_of params (paramKey fld) = Some v \<and>
        convertToType X v (ftype fld) = Err c \<longrightarrow>
        Execute X t ctx params pick = (Returned VNil (VError (ErrParameter (paramKey fld) c)), []))
   \<and> (freeParams (func t) = [TStruct fs] \<and> fld' \<in> set fs \<and> pkgPath fld' = [] \<and>
        map_of params (paramKey fld') = Some v' \<and> convertToType X v' (ftype fld') = Err c' \<longrightarrow>
        snd (Execute X t ctx params pick) = [] \<and>
        (\<forall>r. fst (Execute X t ctx params pick) \<noteq> Returned r VNil))
   \<and> (freeParams (func t) = [ty] \<and> \<not> isStringAnyMap ty \<and> (\<forall>gs. ty \<noteq> TStruct gs) \<and>
        params \<noteq> [] \<and> pick (argIndex (func t)) = k \<and> k \<noteq> [] \<and> map_of params k = Some w \<and>
        convertToType X w ty = Err d \<longrightarrow>
        Execute X t ctx params pick = (Returned VNil (VError (ErrParameter k d)), []))"
proof (intro conjI impI)
  assume b: "Bind X (func t) ctx params pick = Err e"
  then show "Execute X t ctx params pick = (Returned VNil (VError e), [])"
    by (simp add: Execute_def)
  from Bind_Err[OF b]
  show "\<exists>k c v ty. e = ErrParameter k c \<and> map_of params k = Some v \<and>
          convertToType X v ty = Err c" .
next
  assume "snd (Execute X t ctx params pick) \<noteq> []"
  then show "\<exists>args. Bind X (func t) ctx params pick = Ok args"
    by (rule Execute_invoked_Bind_Ok)
next
  assume h: "freeParams (func t) = [TStruct (pre @ fld # post)] \<and> bindStruct X params pre = Ok vals \<and>
        pkgPath fld = [] \<and> map_of params (paramKey fld) = Some v \<and>
        convertToType X v (ftype fld) = Err c"
  then have "bindStruct X params (pre @ fld # post) = Err (ErrParameter (paramKey fld) c)"
    by (blast intro: bindStruct_first_failure)
  with h have "Bind X (func t) ctx params pick = Err (ErrParameter (paramKey fld) c)"
    by (simp add: Bind_struct)
  then show "Execute X t ctx params pick = (Returned VNil (VError (ErrParameter (paramKey fld) c)), [])"
    by (simp add: Execute_def)
next
  assume h: "freeParams (func t) = [TStruct fs] \<and> fld' \<in> set fs \<and> pkgPath fld' = [] \<and>
        map_of params (paramKey fld') = Some v' \<and> convertToType X v' (ftype fld') = Err c'"
  have notOk: "bindStruct X params fs \<noteq> Ok vs" for vs
  proof
    assume "bindStruct X params fs = Ok vs"
    from bindStruct_Ok_converted[OF this] h show False by fastforce
  qed
  from h have b: "Bind X (func t) ctx params pick =
       (case bindStruct X params fs of Panic \<Rightarrow> Panic | Err e \<Rightarrow> Err e
        | Ok vals \<Rightarrow> Ok (ctxArgs (func t) ctx @ [Some (VStruct fs vals)]))"
    by (simp add: Bind_struct)
  show "snd (Execute X t ctx params pick) = []"
    using notOk by (cases "bindStruct X params fs") (auto simp: Execute_def b)
  show "\<forall>r. fst (Execute X t ctx params pick) \<noteq> Returned r VNil"
    using notOk by (cases "bindStruct X params fs") (auto simp: Execute_def b)
next
  assume h: "freeParams (func t) = [ty] \<and> \<not> isStringAnyMap ty \<and> (\<forall>gs. ty \<noteq> TStruct gs) \<and>
        params \<noteq> [] \<and> pick (argIndex (func t)) = k \<and> k \<noteq> [] \<and> map_of params k = Some w \<and>
        convertToType X w ty = Err d"
  then have "Bind X (func t) ctx params pick = Err (ErrParameter k d)"
    by (simp add: Bind_single[where ty = ty])
  then show "Execute X t ctx params pick = (Returned VNil (VError (ErrParameter k d)), [])"
    by (simp add: Execute_def)
qed

text \<open>
  C8. The claim has \<^verbatim>\<open>Execute\<close> return a nil result and a field-qualified conversion error
  whenever the coercion of a present value fails. On \<^verbatim>\<open>struct { A bool; B int }\<close> and the
  map \<open>{"A": <float64>, "B": "x"}\<close> the coercion of \<open>"x"\<close> to \<^verbatim>\<open>int\<close> fails with an error,
  but \<^verbatim>\<open>Execute\<close> panics on field \<open>A\<close> before it reaches \<open>B\<close>: line 513 reads the
  \<^verbatim>\<open>float64\<close> with \<^verbatim>\<open>reflect.Value.Int\<close>. It returns nothing; the function is not called.
\<close>

theorem C8_panic_before_error:
  "map_of [(''A'', VFloat64 w), (''B'', VString ''x'')] (paramKey (abFields ! 1)) = Some (VString ''x'')
   \<and> convertToType X (VString ''x'') (ftype (abFields ! 1)) =
       Err (ErrToInt (VString ''x'') (Some (NumError ''ParseInt'' ''x'' ErrSyntax)))
   \<and> convertToType X (VFloat64 w) (ftype (abFields ! 0)) = Panic
   \<and> Execute X abTool ctx [(''A'', VFloat64 w), (''B'', VString ''x'')] pick = (Panicked, [])"
proof -
  have k: "paramKey (abFields ! 1) = ''B''" "paramKey (abFields ! 0) = ''A''"
    by (simp_all add: abFields_def paramKey_def tagGet_def)
  have t: "ftype (abFields ! 1) = TInt KInt" "ftype (abFields ! 0) = TBool"
    by (simp_all add: abFields_def)
  have p: "convertToType X (VFloat64 w) TBool = Panic"
    by (simp add: convertToType.simps(1) assignableTo_def toBool_def)
  have "bindStruct X [(''A'', VFloat64 w), (''B'', VString ''x'')] abFields = Panic"
    by (simp add: abFields_def paramKey_def tagGet_def p)
  moreover have "freeParams (func abTool) = [TStruct abFields]"
    by (simp add: abTool_def NewFunctionTool_def abFunc_def freeParams_def argIndex_def
          hasContext_def implements_def errorImplT_def contextImplT_def)
  ultimately have "Bind X (func abTool) ctx [(''A'', VFloat64 w), (''B'', VString ''x'')] pick = Panic"
    by (simp add: Bind_struct)
  then have "Execute X abTool ctx [(''A'', VFloat64 w), (''B'', VString ''x'')] pick = (Panicked, [])"
    by (simp add: Execute_def)
  with k t p show ?thesis
    by (simp add: convert_x)
qed

text \<open>
  C9. The claim has the round trip hold for every integer. The \<^verbatim>\<open>uint\<close> 42 is rendered as
  \<open>"42"\<close>, and the coercion of that text back to \<^verbatim>\<open>uint\<close> is the error of line 606: the
  switch has no case for an unsigned target.
\<close>

theorem C9_unsigned_round_trip_fails:
  "sprintV X (VUint KUint 42) = ''42''
   \<and> convertToType X (VString (sprintV X (VUint KUint 42))) (TUint KUint) =
       Err (ErrNoConversion (VString ''42'') (TUint KUint))"
proof -
  have s: "sprintV X (VUint KUint 42) = ''42''"
    by (simp add: sprintV_def fmtInt_def digitChar_def digits.simps)
  have "convertToType X (VString ''42'') (TUint KUint) =
          Err (ErrNoConversion (VString ''42'') (TUint KUint))"
    by (simp add: convertToType.simps(1) assignableTo_def)
  with s show ?thesis by simp
qed

text \<open>
  C10. For a struct parameter the outcome of binding, and with it the outcome of
  \<^verbatim>\<open>Execute\<close>, depends only on the entries of the input map under the keys of the declared
  fields: two maps that agree on these keys give the same outcome, so an entry under any
  other key changes nothing, and an error of the binder is the conversion error of an
  entry under the key of a declared field.
\<close>

theorem C10_unmatched_keys_ignored:
  assumes shape: "freeParams (func t) = [TStruct fs]"
    and agree: "\<forall>fld\<in>set fs. map_of p1 (paramKey fld) = map_of p2 (paramKey fld)"
  shows "Bind X (func t) ctx p1 pick = Bind X (func t) ctx p2 pick'
       \<and> Execute X t ctx p1 pick = Execute X t ctx p2 pick'
       \<and> (\<forall>e. Bind X (func t) ctx p1 pick = Err e \<longrightarrow>
            (\<exists>fld\<in>set fs. \<exists>v c. map_of p1 (paramKey fld) = Some v \<and>
                convertToType X v (ftype fld) = Err c \<and> e = ErrParameter (paramKey fld) c))"
proof -
  have same: "bindStruct X p1 fs = bindStruct X p2 fs"
    using agree by (rule bindStruct_cong)
  have b: "Bind X (func t) ctx p1 pick = Bind X (func t) ctx p2 pick'"
    by (simp add: Bind_struct[OF shape] same)
  have e: "Execute X t ctx p1 pick = Execute X t ctx p2 pick'"
    by (simp add: Execute_def b)
  have r: "\<forall>e. Bind X (func t) ctx p1 pick = Err e \<longrightarrow>
            (\<exists>fld\<in>set fs. \<exists>v c. map_of p1 (paramKey fld) = Some v \<and>
                convertToType X v (ftype fld) = Err c \<and> e = ErrParameter (paramKey fld) c)"
  proof (intro allI impI)
    fix e
    assume "Bind X (func t) ctx p1 pick = Err e"
    then have "bindStruct X p1 fs = Err e"
      by (simp add: Bind_struct[OF shape] split: res.splits)
    from bindStruct_Err[OF this] show "\<exists>fld\<in>set fs. \<exists>v c. map_of p1 (paramKey fld) = Some v \<and>
                convertToType X v (ftype fld) = Err c \<and> e = ErrParameter (paramKey fld) c"
      by blast
  qed
  from b e r show ?thesis by blast
qed

theorem C10_unmatched_keys_ignored_witness:
  "freeParams (func idNoteTool) = [TStruct idNoteFields]
   \<and> list_all (\<lambda>fld. map_of [(''extra'', VBool True), (''id'', VString ''42'')] (paramKey fld) =
                       map_of [(''id'', VString ''42'')] (paramKey fld)) idNoteFields
   \<and> Execute exampleLib idNoteTool VNil [(''extra'', VBool True), (''id'', VString ''42'')] (\<lambda>i. ''extra'') =
       Execute exampleLib idNoteTool VNil [(''id'', VString ''42'')] (\<lambda>i. ''id'')
   \<and> Execute exampleLib idNoteTool VNil [(''id'', VString ''42'')] (\<lambda>i. ''id'') =
       (Returned VNil VNil, [[VStruct idNoteFields [VInt KInt 42, VString []]]])"
proof -
  have shape: "freeParams (func idNoteTool) = [TStruct idNoteFields]"
    by (simp add: idNoteTool_func idNoteFunc_shape)
  have agree: "\<forall>fld\<in>set idNoteFields.
      map_of [(''extra'', VBool True), (''id'', VString ''42'')] (paramKey fld) =
      map_of [(''id'', VString ''42'')] (paramKey fld)"
    by (simp add: idNoteFields_def paramKey_def tagGet_def)
  note th = C10_unmatched_keys_ignored[where X = exampleLib and ctx = VNil
              and pick = "\<lambda>i. ''extra''" and pick' = "\<lambda>i. ''id''", OF shape agree]
  have b: "Bind exampleLib idNoteFunc VNil [(''id'', VString ''42'')] (\<lambda>i. ''id'') =
             Ok [Some (VStruct idNoteFields [VInt KInt 42, VString []])]"
    by (rule idNote_bind)
  have ex: "Execute exampleLib idNoteTool VNil [(''id'', VString ''42'')] (\<lambda>i. ''id'') =
       (Returned VNil VNil, [[VStruct idNoteFields [VInt KInt 42, VString []]]])"
  proof -
    have "Execute exampleLib idNoteTool VNil [(''id'', VString ''42'')] (\<lambda>i. ''id'') =
            Call idNoteFunc [Some (VStruct idNoteFields [VInt KInt 42, VString []])]"
      by (simp add: Execute_def idNoteTool_func b)
    also have "\<dots> = (Returned VNil VNil, [[VStruct idNoteFields [VInt KInt 42, VString []]]])"
      by (simp add: Call_def idNoteFunc_def argOK_def assignableTo_def handleResults_def)
    finally show ?thesis .
  qed
  from th shape agree ex show ?thesis
    by (simp add: list_all_iff)
qed

end
